theory Spec2Isabelle
  imports Main "HOL-Library.AList"
begin

section \<open>JavaScript values\<close>

text \<open>
  The two clients shape option bags: untyped JavaScript objects. An object is an ordered
  list of its own properties; a property written twice keeps its first position
  (\<open>AList.update\<close>), a read takes the first binding (\<open>map_of\<close>). The kind of an
  object separates what \<open>isPlainObject\<close> and \<open>Array.isArray\<close> tell apart; \<open>Exotic\<close>
  stands for streams, buffers and class instances.
\<close>

datatype obj_kind = Plain | Array | Exotic

datatype jsval =
    Undefined
  | Null
  | Bool bool
  | Num int
  | Str string
  | Obj obj_kind "(string \<times> jsval) list"

datatype js_error = TypeError | Error string

text \<open>A caller-supplied function; only its \<open>name\<close> property is ever visible to the clients.\<close>

datatype callback = Fn string

text \<open>
  What a caller may pass in the \<open>params\<close> position: nothing, \<open>null\<close>, a plain parameter
  bag, or (for the methods whose parameters are all optional) the callback itself.
\<close>

datatype params_arg =
    PUndefined
  | PNull
  | PObj "(string \<times> jsval) list"
  | PFunc callback

fun truthy :: "jsval \<Rightarrow> bool" where
  "truthy Undefined = False"
| "truthy Null = False"
| "truthy (Bool b) = b"
| "truthy (Num n) = (n \<noteq> 0)"
| "truthy (Str s) = (s \<noteq> [])"
| "truthy (Obj k ps) = True"

text \<open>\<open>typeof v === 'object'\<close>: true of every object and of \<open>null\<close>.\<close>

fun typeof_object :: "jsval \<Rightarrow> bool" where
  "typeof_object Null = True"
| "typeof_object (Obj k ps) = True"
| "typeof_object v = False"

text \<open>
  Property read \<open>v.k\<close> on a value: \<open>undefined\<close> and \<open>null\<close> throw a TypeError, a missing
  own property reads as \<open>undefined\<close>. Own properties only: none of the keys the clients
  read (\<open>version_date\<close>, \<open>qs\<close>, \<open>headers\<close>) is inherited from a prototype.
\<close>

fun get_prop :: "jsval \<Rightarrow> string \<Rightarrow> js_error + jsval" where
  "get_prop Undefined k = Inl TypeError"
| "get_prop Null k = Inl TypeError"
| "get_prop (Obj kind ps) k = Inr (case map_of ps k of None \<Rightarrow> Undefined | Some v \<Rightarrow> v)"
| "get_prop v k = Inr Undefined"

text \<open>
  Property write \<open>v.k = x\<close>. The compiled modules are strict-mode code, where a write
  to a property of a primitive throws like a write through \<open>undefined\<close> or \<open>null\<close>.
\<close>

fun set_prop :: "jsval \<Rightarrow> string \<Rightarrow> jsval \<Rightarrow> js_error + jsval" where
  "set_prop (Obj kind ps) k x = Inr (Obj kind (AList.update k x ps))"
| "set_prop v k x = Inl TypeError"

text \<open>
  Property read \<open>params.k\<close> inside a method. A function has a \<open>name\<close>; no other key
  the methods read is defined on a function.
\<close>

fun read_param :: "params_arg \<Rightarrow> string \<Rightarrow> js_error + jsval" where
  "read_param PUndefined k = Inl TypeError"
| "read_param PNull k = Inl TypeError"
| "read_param (PObj ps) k = Inr (case map_of ps k of None \<Rightarrow> Undefined | Some v \<Rightarrow> v)"
| "read_param (PFunc (Fn nm)) k = Inr (if k = ''name'' then Str nm else Undefined)"

text \<open>\<open>params || {}\<close>: a function and an object are truthy, \<open>undefined\<close> and \<open>null\<close> are not.\<close>

fun or_empty :: "params_arg \<Rightarrow> params_arg" where
  "or_empty PUndefined = PObj []"
| "or_empty PNull = PObj []"
| "or_empty p = p"

section \<open>The \<open>extend\<close> package, deep mode\<close>

text \<open>
  \<open>extend(true, target, options)\<close> of the npm package \<open>extend\<close>, which both clients
  import. For each property \<open>name\<close> of \<open>options\<close> with value \<open>copy\<close>: a plain object or
  an array is merged recursively into \<open>target[name]\<close> when that is of the same sort and
  into a new empty one otherwise; \<open>undefined\<close> is skipped; anything else is assigned.
  The function writes into \<open>target\<close> itself and returns it. \<open>extend_props\<close> gives the
  properties of \<open>target\<close> after the loop.
\<close>

fun extend_props :: "(string \<times> jsval) list \<Rightarrow> (string \<times> jsval) list \<Rightarrow> (string \<times> jsval) list" where
  "extend_props target [] = target"
| "extend_props target ((name, Obj Plain cps) # rest) =
     extend_props
       (AList.update name
          (Obj Plain (extend_props (case map_of target name of Some (Obj Plain sps) \<Rightarrow> sps | _ \<Rightarrow> []) cps))
          target)
       rest"
| "extend_props target ((name, Obj Array cps) # rest) =
     extend_props
       (AList.update name
          (Obj Array (extend_props (case map_of target name of Some (Obj Array sps) \<Rightarrow> sps | _ \<Rightarrow> []) cps))
          target)
       rest"
| "extend_props target ((name, Undefined) # rest) = extend_props target rest"
| "extend_props target ((name, copy) # rest) = extend_props (AList.update name copy target) rest"

text \<open>
  The value \<open>extend(true, target, {...})\<close> returns. A target that is not an object
  (\<open>undefined\<close>, \<open>null\<close>, a primitive) is replaced by a new empty object first.
\<close>

fun extend_true :: "jsval \<Rightarrow> (string \<times> jsval) list \<Rightarrow> jsval" where
  "extend_true (Obj kind ps) options = Obj kind (extend_props ps options)"
| "extend_true v options = Obj Plain (extend_props [] options)"

text \<open>
  What \<open>target\<close> holds after the call: an object target was written in place and is the
  returned value; any other target was left alone.
\<close>

fun extend_target_after :: "jsval \<Rightarrow> (string \<times> jsval) list \<Rightarrow> jsval" where
  "extend_target_after (Obj kind ps) options = extend_true (Obj kind ps) options"
| "extend_target_after v options = v"

section \<open>The helpers of \<open>lib/helper\<close>\<close>

text \<open>
  Modelled from the spec: the error value \<open>helper.getMissingParams\<close> hands back is built
  in \<open>lib/helper\<close>, which is not under \<open>src/\<close>. Section 3: a MissingParamsError holds the
  ordered list of missing field names.
\<close>

datatype missing_params_error = MissingParamsError (missing: "string list")

text \<open>
  Modelled from the spec: the validator's own read of a parameter (\<open>lib/helper\<close>, not
  under \<open>src/\<close>). Section 4.1: an absent bag is treated as an empty mapping.
\<close>

fun peek_param :: "params_arg \<Rightarrow> string \<Rightarrow> jsval" where
  "peek_param (PObj ps) k = (case map_of ps k of None \<Rightarrow> Undefined | Some v \<Rightarrow> v)"
| "peek_param (PFunc (Fn nm)) k = (if k = ''name'' then Str nm else Undefined)"
| "peek_param p k = Undefined"

text \<open>
  Modelled from the spec: \<open>helper.getMissingParams\<close> of \<open>lib/helper\<close> is not under
  \<open>src/\<close>. Section 4.1 gives its contract (the required names, in order, that the bag
  lacks) and describes the check the source makes: a shallow existence check, which
  flags a present falsy value (empty string, \<open>0\<close>, \<open>false\<close>) like an absent one. So a
  name is collected when \<open>!params[name]\<close>, that is when its value is not truthy.
\<close>

fun validateRequired :: "params_arg \<Rightarrow> string list \<Rightarrow> string list" where
  "validateRequired params [] = []"
| "validateRequired params (r # required) =
     (if \<not> truthy (peek_param params r)
      then r # validateRequired params required
      else validateRequired params required)"

text \<open>
  Modelled from the spec: the result the methods test with \<open>if (missingParams && callback)\<close>.
  Section 4.1: an empty list signals that all are present and does not short-circuit; a
  non-empty list is truthy and is the error handed to the callback (section 3).
\<close>

definition getMissingParams :: "params_arg \<Rightarrow> string list \<Rightarrow> missing_params_error option" where
  "getMissingParams params required =
     (let names = validateRequired params required
      in if names = [] then None else Some (MissingParamsError names))"

text \<open>A value of a multipart form.\<close>

datatype form_value =
    RequestFileObject jsval jsval
  | Verbatim jsval
  | Stringified jsval

text \<open>
  Modelled from the spec: \<open>helper.buildRequestFileObject\<close> of \<open>lib/helper\<close> is not
  under \<open>src/\<close>. Section 3: a multipart field holds the data and the content type it
  was built from.
\<close>

definition buildRequestFileObject :: "jsval \<Rightarrow> jsval \<Rightarrow> form_value" where
  "buildRequestFileObject data contentType = RequestFileObject data contentType"

section \<open>Request descriptors\<close>

datatype http_method = GET | POST | PUT | DELETE

text \<open>
  The \<open>options\<close> literal of a method; a key the literal does not write is \<open>None\<close>
  (\<open>json\<close>: \<open>False\<close>). The field \<open>request_method\<close> is the key \<open>method\<close>.
\<close>

record req_options =
  url :: string
  request_method :: http_method
  json :: bool
  body :: "(string \<times> jsval) list option"
  qs :: "(string \<times> jsval) list option"
  path :: "(string \<times> jsval) list option"
  formData :: "(string \<times> form_value) list option"

record parameters =
  options :: req_options
  defaultOptions :: jsval

text \<open>The service client: \<open>_options\<close>, set by BaseService.\<close>

record client =
  this_options :: jsval

text \<open>
  What a method does to the outside: it calls the callback with the validation error,
  or it calls \<open>requestFactory\<close> (\<open>lib/requestwrapper\<close>) with the parameters and the
  callback it holds (none when omitted).
\<close>

datatype event =
    CallbackCall callback missing_params_error
  | RequestFactoryCall parameters "callback option"

datatype completion = Returned | Threw js_error

record outcome =
  this_after :: client
  trace :: "event list"
  completion :: completion

section \<open>The generated methods\<close>

text \<open>
  Every method of both clients is an instance of one template. What varies is written
  down per method: the required names (\<open>None\<close> for a method whose parameters are all
  optional, which has no validation step), the literals \<open>body\<close>, \<open>query\<close>, \<open>path\<close> and
  \<open>formData\<close> as lists of (key, parameter read), and the url, method, \<open>json\<close> flag and
  headers of the call.
\<close>

datatype content_type_src = CtLit string | CtParam string

text \<open>
  A file part is written in the \<open>formData\<close> literal; a text part is added afterwards,
  only when its parameter is truthy, stringified when it is an object.
\<close>

datatype form_part =
    FilePart string string content_type_src
  | TextPart string

record endpoint =
  requiredParams :: "string list option"
  formData_of :: "form_part list option"
  body_of :: "(string \<times> string) list option"
  query_of :: "(string \<times> string) list option"
  path_of :: "(string \<times> string) list option"
  url_of :: string
  method_of :: http_method
  json_of :: bool
  headers_of :: "(string \<times> string) list"

text \<open>An object literal \<open>{ k1: params.p1, k2: params.p2, ... }\<close>, read left to right.\<close>

fun read_fields :: "params_arg \<Rightarrow> (string \<times> string) list \<Rightarrow> js_error + (string \<times> jsval) list" where
  "read_fields params [] = Inr []"
| "read_fields params ((k, p) # rest) =
     (case read_param params p of
        Inl e \<Rightarrow> Inl e
      | Inr v \<Rightarrow> (case read_fields params rest of
                   Inl e \<Rightarrow> Inl e
                 | Inr kvs \<Rightarrow> Inr ((k, v) # kvs)))"

fun read_literal :: "params_arg \<Rightarrow> (string \<times> string) list option \<Rightarrow> js_error + (string \<times> jsval) list option" where
  "read_literal params None = Inr None"
| "read_literal params (Some literal) =
     (case read_fields params literal of Inl e \<Rightarrow> Inl e | Inr kvs \<Rightarrow> Inr (Some kvs))"

fun read_content_type :: "params_arg \<Rightarrow> content_type_src \<Rightarrow> js_error + jsval" where
  "read_content_type params (CtLit s) = Inr (Str s)"
| "read_content_type params (CtParam p) = read_param params p"

fun read_form_parts :: "params_arg \<Rightarrow> form_part list \<Rightarrow> js_error + (string \<times> form_value) list" where
  "read_form_parts params [] = Inr []"
| "read_form_parts params (FilePart k p ct # parts) =
     (case read_param params p of
        Inl e \<Rightarrow> Inl e
      | Inr data \<Rightarrow> (case read_content_type params ct of
                    Inl e \<Rightarrow> Inl e
                  | Inr ctv \<Rightarrow> (case read_form_parts params parts of
                                Inl e \<Rightarrow> Inl e
                              | Inr kvs \<Rightarrow> Inr ((k, buildRequestFileObject data ctv) # kvs))))"
| "read_form_parts params (TextPart p # parts) =
     (case read_param params p of
        Inl e \<Rightarrow> Inl e
      | Inr v \<Rightarrow> (case read_form_parts params parts of
                   Inl e \<Rightarrow> Inl e
                 | Inr kvs \<Rightarrow>
                     Inr (if truthy v
                          then (p, if typeof_object v then Stringified v else Verbatim v) # kvs
                          else kvs)))"

fun read_formData :: "params_arg \<Rightarrow> form_part list option \<Rightarrow> js_error + (string \<times> form_value) list option" where
  "read_formData params None = Inr None"
| "read_formData params (Some parts) =
     (case read_form_parts params parts of Inl e \<Rightarrow> Inl e | Inr kvs \<Rightarrow> Inr (Some kvs))"

text \<open>The \<open>options\<close> literal of a method, from the parameters it reads.\<close>

definition build_options :: "endpoint \<Rightarrow> params_arg \<Rightarrow> js_error + req_options" where
  "build_options e params =
     (case read_formData params (formData_of e) of
        Inl err \<Rightarrow> Inl err
      | Inr fd \<Rightarrow>
         (case read_literal params (body_of e) of
            Inl err \<Rightarrow> Inl err
          | Inr b \<Rightarrow>
             (case read_literal params (query_of e) of
                Inl err \<Rightarrow> Inl err
              | Inr q \<Rightarrow>
                 (case read_literal params (path_of e) of
                    Inl err \<Rightarrow> Inl err
                  | Inr pth \<Rightarrow>
                      Inr \<lparr>url = url_of e, request_method = method_of e, json = json_of e,
                           body = b, qs = q, path = pth, formData = fd\<rparr>))))"

text \<open>The overlay \<open>{ headers: { ... } }\<close> of a method.\<close>

definition headers_overlay :: "endpoint \<Rightarrow> (string \<times> jsval) list" where
  "headers_overlay e = [(''headers'', Obj Plain (map (\<lambda>(k, v). (k, Str v)) (headers_of e)))]"

text \<open>
  From the first parameter read to \<open>return requestFactory(parameters, callback)\<close>:
  the literals are built (a read through \<open>undefined\<close> or \<open>null\<close> throws before
  anything else happens), then \<open>extend(true, this._options, {headers})\<close> runs with
  \<open>this._options\<close> as its target, and its result is passed on as \<open>defaultOptions\<close>.
\<close>

definition send :: "endpoint \<Rightarrow> client \<Rightarrow> params_arg \<Rightarrow> callback option \<Rightarrow> outcome" where
  "send e c params cb =
     (case build_options e params of
        Inl err \<Rightarrow> \<lparr>this_after = c, trace = [], completion = Threw err\<rparr>
      | Inr opts \<Rightarrow>
          \<lparr>this_after = c\<lparr>this_options := extend_target_after (this_options c) (headers_overlay e)\<rparr>,
           trace = [RequestFactoryCall
                      \<lparr>options = opts,
                       defaultOptions = extend_true (this_options c) (headers_overlay e)\<rparr> cb],
           completion = Returned\<rparr>)"

text \<open>
  A method call \<open>client.m(params, callback)\<close>. With required names: validate
  \<open>params || {}\<close>, and leave through the callback only if something is missing and a
  callback was given. Without: default the bag, and take a function passed alone as the
  callback.
\<close>

definition invoke :: "endpoint \<Rightarrow> client \<Rightarrow> params_arg \<Rightarrow> callback option \<Rightarrow> outcome" where
  "invoke e c params cb =
     (case requiredParams e of
        Some required \<Rightarrow>
          (case (getMissingParams (or_empty params) required, cb) of
             (Some missingParams, Some f) \<Rightarrow>
               \<lparr>this_after = c, trace = [CallbackCall f missingParams], completion = Returned\<rparr>
           | _ \<Rightarrow> send e c params cb)
      | None \<Rightarrow>
          (case (or_empty params, cb) of
             (PFunc f, None) \<Rightarrow> send e c (PObj []) (Some f)
           | (params', _) \<Rightarrow> send e c params' cb))"

subsection \<open>LanguageTranslatorV2\<close>

text \<open>\<open>LanguageTranslatorV2.translate\<close>\<close>

definition translate :: endpoint where
  "translate =
     \<lparr>requiredParams = Some [''text''],
      formData_of = None,
      body_of = Some [(''text'', ''text''), (''model_id'', ''model_id''),
                      (''source'', ''source''), (''target'', ''target'')],
      query_of = None,
      path_of = None,
      url_of = ''/v2/translate'',
      method_of = POST,
      json_of = True,
      headers_of = [(''accept'', ''application/json''),
                     (''content-type'', ''application/json'')]\<rparr>"

text \<open>\<open>LanguageTranslatorV2.identify\<close>\<close>

definition identify :: endpoint where
  "identify =
     \<lparr>requiredParams = Some [''text''],
      formData_of = None,
      body_of = Some [(''text'', ''text'')],
      query_of = None,
      path_of = None,
      url_of = ''/v2/identify'',
      method_of = POST,
      json_of = True,
      headers_of = [(''accept'', ''application/json''), (''content-type'', ''text/plain'')]\<rparr>"

text \<open>\<open>LanguageTranslatorV2.listIdentifiableLanguages\<close>\<close>

definition listIdentifiableLanguages :: endpoint where
  "listIdentifiableLanguages =
     \<lparr>requiredParams = None,
      formData_of = None,
      body_of = None,
      query_of = None,
      path_of = None,
      url_of = ''/v2/identifiable_languages'',
      method_of = GET,
      json_of = False,
      headers_of = [(''accept'', ''application/json'')]\<rparr>"

text \<open>\<open>LanguageTranslatorV2.createModel\<close>\<close>

definition createModel :: endpoint where
  "createModel =
     \<lparr>requiredParams = Some [''base_model_id''],
      formData_of = Some [FilePart ''forced_glossary'' ''forced_glossary'' (CtLit ''application/octet-stream''),
                          FilePart ''parallel_corpus'' ''parallel_corpus'' (CtLit ''application/octet-stream''),
                          FilePart ''monolingual_corpus'' ''monolingual_corpus'' (CtLit ''text/plain'')],
      body_of = None,
      query_of = Some [(''base_model_id'', ''base_model_id''), (''name'', ''name'')],
      path_of = None,
      url_of = ''/v2/models'',
      method_of = POST,
      json_of = False,
      headers_of = [(''accept'', ''application/json''),
                     (''content-type'', ''multipart/form-data'')]\<rparr>"

text \<open>\<open>LanguageTranslatorV2.deleteModel\<close>\<close>

definition deleteModel :: endpoint where
  "deleteModel =
     \<lparr>requiredParams = Some [''model_id''],
      formData_of = None,
      body_of = None,
      query_of = None,
      path_of = Some [(''model_id'', ''model_id'')],
      url_of = ''/v2/models/{model_id}'',
      method_of = DELETE,
      json_of = False,
      headers_of = [(''accept'', ''application/json'')]\<rparr>"

text \<open>\<open>LanguageTranslatorV2.getModel\<close>\<close>

definition getModel :: endpoint where
  "getModel =
     \<lparr>requiredParams = Some [''model_id''],
      formData_of = None,
      body_of = None,
      query_of = None,
      path_of = Some [(''model_id'', ''model_id'')],
      url_of = ''/v2/models/{model_id}'',
      method_of = GET,
      json_of = False,
      headers_of = [(''accept'', ''application/json'')]\<rparr>"

text \<open>\<open>LanguageTranslatorV2.listModels\<close>\<close>

definition listModels :: endpoint where
  "listModels =
     \<lparr>requiredParams = None,
      formData_of = None,
      body_of = None,
      query_of = Some [(''source'', ''source''), (''target'', ''target''),
                       (''default'', ''default_models'')],
      path_of = None,
      url_of = ''/v2/models'',
      method_of = GET,
      json_of = False,
      headers_of = [(''accept'', ''application/json''),
                     (''content-type'', ''application/x-www-form-urlencoded'')]\<rparr>"

definition LanguageTranslatorV2_methods :: "endpoint list" where
  "LanguageTranslatorV2_methods =
     [translate, identify, listIdentifiableLanguages, createModel, deleteModel, getModel,
      listModels]"

subsection \<open>DiscoveryV1\<close>

text \<open>\<open>DiscoveryV1.createEnvironment\<close>\<close>

definition createEnvironment :: endpoint where
  "createEnvironment =
     \<lparr>requiredParams = Some [''name''],
      formData_of = None,
      body_of = Some [(''name'', ''name''), (''description'', ''description''),
                      (''size'', ''size'')],
      query_of = None,
      path_of = None,
      url_of = ''/v1/environments'',
      method_of = POST,
      json_of = True,
      headers_of = [(''accept'', ''application/json''),
                     (''content-type'', ''application/json'')]\<rparr>"

text \<open>\<open>DiscoveryV1.deleteEnvironment\<close>\<close>

definition deleteEnvironment :: endpoint where
  "deleteEnvironment =
     \<lparr>requiredParams = Some [''environment_id''],
      formData_of = None,
      body_of = None,
      query_of = None,
      path_of = Some [(''environment_id'', ''environment_id'')],
      url_of = ''/v1/environments/{environment_id}'',
      method_of = DELETE,
      json_of = False,
      headers_of = [(''accept'', ''application/json''),
                     (''content-type'', ''application/json'')]\<rparr>"

text \<open>\<open>DiscoveryV1.getEnvironment\<close>\<close>

definition getEnvironment :: endpoint where
  "getEnvironment =
     \<lparr>requiredParams = Some [''environment_id''],
      formData_of = None,
      body_of = None,
      query_of = None,
      path_of = Some [(''environment_id'', ''environment_id'')],
      url_of = ''/v1/environments/{environment_id}'',
      method_of = GET,
      json_of = False,
      headers_of = [(''accept'', ''application/json''),
                     (''content-type'', ''application/json'')]\<rparr>"

text \<open>\<open>DiscoveryV1.listEnvironments\<close>\<close>

definition listEnvironments :: endpoint where
  "listEnvironments =
     \<lparr>requiredParams = None,
      formData_of = None,
      body_of = None,
      query_of = Some [(''name'', ''name'')],
      path_of = None,
      url_of = ''/v1/environments'',
      method_of = GET,
      json_of = False,
      headers_of = [(''accept'', ''application/json''),
                     (''content-type'', ''application/json'')]\<rparr>"

text \<open>\<open>DiscoveryV1.listFields\<close>\<close>

definition listFields :: endpoint where
  "listFields =
     \<lparr>requiredParams = Some [''environment_id'', ''collection_ids''],
      formData_of = None,
      body_of = None,
      query_of = Some [(''collection_ids'', ''collection_ids'')],
      path_of = Some [(''environment_id'', ''environment_id'')],
      url_of = ''/v1/environments/{environment_id}/fields'',
      method_of = GET,
      json_of = False,
      headers_of = [(''accept'', ''application/json''),
                     (''content-type'', ''application/json'')]\<rparr>"

text \<open>\<open>DiscoveryV1.updateEnvironment\<close>\<close>

definition updateEnvironment :: endpoint where
  "updateEnvironment =
     \<lparr>requiredParams = Some [''environment_id''],
      formData_of = None,
      body_of = Some [(''name'', ''name''), (''description'', ''description'')],
      query_of = None,
      path_of = Some [(''environment_id'', ''environment_id'')],
      url_of = ''/v1/environments/{environment_id}'',
      method_of = PUT,
      json_of = True,
      headers_of = [(''accept'', ''application/json''),
                     (''content-type'', ''application/json'')]\<rparr>"

text \<open>\<open>DiscoveryV1.createConfiguration\<close>\<close>

definition createConfiguration :: endpoint where
  "createConfiguration =
     \<lparr>requiredParams = Some [''environment_id'', ''name''],
      formData_of = None,
      body_of = Some [(''name'', ''name''), (''description'', ''description''),
                      (''conversions'', ''conversions''), (''enrichments'', ''enrichments''),
                      (''normalizations'', ''normalizations'')],
      query_of = None,
      path_of = Some [(''environment_id'', ''environment_id'')],
      url_of = ''/v1/environments/{environment_id}/configurations'',
      method_of = POST,
      json_of = True,
      headers_of = [(''accept'', ''application/json''),
                     (''content-type'', ''application/json'')]\<rparr>"

text \<open>\<open>DiscoveryV1.deleteConfiguration\<close>\<close>

definition deleteConfiguration :: endpoint where
  "deleteConfiguration =
     \<lparr>requiredParams = Some [''environment_id'', ''configuration_id''],
      formData_of = None,
      body_of = None,
      query_of = None,
      path_of = Some [(''environment_id'', ''environment_id''),
                      (''configuration_id'', ''configuration_id'')],
      url_of = ''/v1/environments/{environment_id}/configurations/{configuration_id}'',
      method_of = DELETE,
      json_of = False,
      headers_of = [(''accept'', ''application/json''),
                     (''content-type'', ''application/json'')]\<rparr>"

text \<open>\<open>DiscoveryV1.getConfiguration\<close>\<close>

definition getConfiguration :: endpoint where
  "getConfiguration =
     \<lparr>requiredParams = Some [''environment_id'', ''configuration_id''],
      formData_of = None,
      body_of = None,
      query_of = None,
      path_of = Some [(''environment_id'', ''environment_id''),
                      (''configuration_id'', ''configuration_id'')],
      url_of = ''/v1/environments/{environment_id}/configurations/{configuration_id}'',
      method_of = GET,
      json_of = False,
      headers_of = [(''accept'', ''application/json''),
                     (''content-type'', ''application/json'')]\<rparr>"

text \<open>\<open>DiscoveryV1.listConfigurations\<close>\<close>

definition listConfigurations :: endpoint where
  "listConfigurations =
     \<lparr>requiredParams = Some [''environment_id''],
      formData_of = None,
      body_of = None,
      query_of = Some [(''name'', ''name'')],
      path_of = Some [(''environment_id'', ''environment_id'')],
      url_of = ''/v1/environments/{environment_id}/configurations'',
      method_of = GET,
      json_of = False,
      headers_of = [(''accept'', ''application/json''),
                     (''content-type'', ''application/json'')]\<rparr>"

text \<open>\<open>DiscoveryV1.updateConfiguration\<close>\<close>

definition updateConfiguration :: endpoint where
  "updateConfiguration =
     \<lparr>requiredParams = Some [''environment_id'', ''configuration_id'', ''name''],
      formData_of = None,
      body_of = Some [(''name'', ''name''), (''description'', ''description''),
                      (''conversions'', ''conversions''), (''enrichments'', ''enrichments''),
                      (''normalizations'', ''normalizations'')],
      query_of = None,
      path_of = Some [(''environment_id'', ''environment_id''),
                      (''configuration_id'', ''configuration_id'')],
      url_of = ''/v1/environments/{environment_id}/configurations/{configuration_id}'',
      method_of = PUT,
      json_of = True,
      headers_of = [(''accept'', ''application/json''),
                     (''content-type'', ''application/json'')]\<rparr>"

text \<open>\<open>DiscoveryV1.testConfigurationInEnvironment\<close>\<close>

definition testConfigurationInEnvironment :: endpoint where
  "testConfigurationInEnvironment =
     \<lparr>requiredParams = Some [''environment_id''],
      formData_of = Some [FilePart ''file'' ''file'' (CtParam ''file_content_type''),
                          TextPart ''metadata'',
                          TextPart ''configuration''],
      body_of = None,
      query_of = Some [(''step'', ''step''), (''configuration_id'', ''configuration_id'')],
      path_of = Some [(''environment_id'', ''environment_id'')],
      url_of = ''/v1/environments/{environment_id}/preview'',
      method_of = POST,
      json_of = False,
      headers_of = [(''accept'', ''application/json''),
                     (''content-type'', ''multipart/form-data'')]\<rparr>"

text \<open>\<open>DiscoveryV1.createCollection\<close>\<close>

definition createCollection :: endpoint where
  "createCollection =
     \<lparr>requiredParams = Some [''environment_id'', ''name''],
      formData_of = None,
      body_of = Some [(''name'', ''name''), (''description'', ''description''),
                      (''configuration_id'', ''configuration_id''), (''language'', ''language'')],
      query_of = None,
      path_of = Some [(''environment_id'', ''environment_id'')],
      url_of = ''/v1/environments/{environment_id}/collections'',
      method_of = POST,
      json_of = True,
      headers_of = [(''accept'', ''application/json''),
                     (''content-type'', ''application/json'')]\<rparr>"

text \<open>\<open>DiscoveryV1.deleteCollection\<close>\<close>

definition deleteCollection :: endpoint where
  "deleteCollection =
     \<lparr>requiredParams = Some [''environment_id'', ''collection_id''],
      formData_of = None,
      body_of = None,
      query_of = None,
      path_of = Some [(''environment_id'', ''environment_id''),
                      (''collection_id'', ''collection_id'')],
      url_of = ''/v1/environments/{environment_id}/collections/{collection_id}'',
      method_of = DELETE,
      json_of = False,
      headers_of = [(''accept'', ''application/json''),
                     (''content-type'', ''application/json'')]\<rparr>"

text \<open>\<open>DiscoveryV1.getCollection\<close>\<close>

definition getCollection :: endpoint where
  "getCollection =
     \<lparr>requiredParams = Some [''environment_id'', ''collection_id''],
      formData_of = None,
      body_of = None,
      query_of = None,
      path_of = Some [(''environment_id'', ''environment_id''),
                      (''collection_id'', ''collection_id'')],
      url_of = ''/v1/environments/{environment_id}/collections/{collection_id}'',
      method_of = GET,
      json_of = False,
      headers_of = [(''accept'', ''application/json''),
                     (''content-type'', ''application/json'')]\<rparr>"

text \<open>\<open>DiscoveryV1.listCollectionFields\<close>\<close>

definition listCollectionFields :: endpoint where
  "listCollectionFields =
     \<lparr>requiredParams = Some [''environment_id'', ''collection_id''],
      formData_of = None,
      body_of = None,
      query_of = None,
      path_of = Some [(''environment_id'', ''environment_id''),
                      (''collection_id'', ''collection_id'')],
      url_of = ''/v1/environments/{environment_id}/collections/{collection_id}/fields'',
      method_of = GET,
      json_of = False,
      headers_of = [(''accept'', ''application/json''),
                     (''content-type'', ''application/json'')]\<rparr>"

text \<open>\<open>DiscoveryV1.listCollections\<close>\<close>

definition listCollections :: endpoint where
  "listCollections =
     \<lparr>requiredParams = Some [''environment_id''],
      formData_of = None,
      body_of = None,
      query_of = Some [(''name'', ''name'')],
      path_of = Some [(''environment_id'', ''environment_id'')],
      url_of = ''/v1/environments/{environment_id}/collections'',
      method_of = GET,
      json_of = False,
      headers_of = [(''accept'', ''application/json''),
                     (''content-type'', ''application/json'')]\<rparr>"

text \<open>\<open>DiscoveryV1.updateCollection\<close>\<close>

definition updateCollection :: endpoint where
  "updateCollection =
     \<lparr>requiredParams = Some [''environment_id'', ''collection_id''],
      formData_of = None,
      body_of = Some [(''name'', ''name''), (''description'', ''description''),
                      (''configuration_id'', ''configuration_id'')],
      query_of = None,
      path_of = Some [(''environment_id'', ''environment_id''),
                      (''collection_id'', ''collection_id'')],
      url_of = ''/v1/environments/{environment_id}/collections/{collection_id}'',
      method_of = PUT,
      json_of = True,
      headers_of = [(''accept'', ''application/json''),
                     (''content-type'', ''application/json'')]\<rparr>"

text \<open>\<open>DiscoveryV1.addDocument\<close>\<close>

definition addDocument :: endpoint where
  "addDocument =
     \<lparr>requiredParams = Some [''environment_id'', ''collection_id''],
      formData_of = Some [FilePart ''file'' ''file'' (CtParam ''file_content_type''),
                          TextPart ''metadata''],
      body_of = None,
      query_of = None,
      path_of = Some [(''environment_id'', ''environment_id''),
                      (''collection_id'', ''collection_id'')],
      url_of = ''/v1/environments/{environment_id}/collections/{collection_id}/documents'',
      method_of = POST,
      json_of = False,
      headers_of = [(''accept'', ''application/json''),
                     (''content-type'', ''multipart/form-data'')]\<rparr>"

text \<open>\<open>DiscoveryV1.deleteDocument\<close>\<close>

definition deleteDocument :: endpoint where
  "deleteDocument =
     \<lparr>requiredParams = Some [''environment_id'', ''collection_id'', ''document_id''],
      formData_of = None,
      body_of = None,
      query_of = None,
      path_of = Some [(''environment_id'', ''environment_id''),
                      (''collection_id'', ''collection_id''), (''document_id'', ''document_id'')],
      url_of = ''/v1/environments/{environment_id}/collections/{collection_id}/documents/{document_id}'',
      method_of = DELETE,
      json_of = False,
      headers_of = [(''accept'', ''application/json''),
                     (''content-type'', ''application/json'')]\<rparr>"

text \<open>\<open>DiscoveryV1.getDocumentStatus\<close>\<close>

definition getDocumentStatus :: endpoint where
  "getDocumentStatus =
     \<lparr>requiredParams = Some [''environment_id'', ''collection_id'', ''document_id''],
      formData_of = None,
      body_of = None,
      query_of = None,
      path_of = Some [(''environment_id'', ''environment_id''),
                      (''collection_id'', ''collection_id''), (''document_id'', ''document_id'')],
      url_of = ''/v1/environments/{environment_id}/collections/{collection_id}/documents/{document_id}'',
      method_of = GET,
      json_of = False,
      headers_of = [(''accept'', ''application/json''),
                     (''content-type'', ''application/json'')]\<rparr>"

text \<open>\<open>DiscoveryV1.updateDocument\<close>\<close>

definition updateDocument :: endpoint where
  "updateDocument =
     \<lparr>requiredParams = Some [''environment_id'', ''collection_id'', ''document_id''],
      formData_of = Some [FilePart ''file'' ''file'' (CtParam ''file_content_type''),
                          TextPart ''metadata''],
      body_of = None,
      query_of = None,
      path_of = Some [(''environment_id'', ''environment_id''),
                      (''collection_id'', ''collection_id''), (''document_id'', ''document_id'')],
      url_of = ''/v1/environments/{environment_id}/collections/{collection_id}/documents/{document_id}'',
      method_of = POST,
      json_of = False,
      headers_of = [(''accept'', ''application/json''),
                     (''content-type'', ''multipart/form-data'')]\<rparr>"

text \<open>\<open>DiscoveryV1.federatedQuery\<close>\<close>

definition federatedQuery :: endpoint where
  "federatedQuery =
     \<lparr>requiredParams = Some [''environment_id'', ''collection_ids''],
      formData_of = None,
      body_of = None,
      query_of = Some [(''collection_ids'', ''collection_ids''), (''filter'', ''filter''),
                       (''query'', ''query''),
                       (''natural_language_query'', ''natural_language_query''),
                       (''aggregation'', ''aggregation''), (''count'', ''count''),
                       (''return_fields'', ''return_fields''), (''offset'', ''offset''),
                       (''sort'', ''sort''), (''highlight'', ''highlight''),
                       (''deduplicate'', ''deduplicate''),
                       (''deduplicate_field'', ''deduplicate_field'')],
      path_of = Some [(''environment_id'', ''environment_id'')],
      url_of = ''/v1/environments/{environment_id}/query'',
      method_of = GET,
      json_of = False,
      headers_of = [(''accept'', ''application/json''),
                     (''content-type'', ''application/json'')]\<rparr>"

text \<open>\<open>DiscoveryV1.federatedQueryNotices\<close>\<close>

definition federatedQueryNotices :: endpoint where
  "federatedQueryNotices =
     \<lparr>requiredParams = Some [''environment_id'', ''collection_ids''],
      formData_of = None,
      body_of = None,
      query_of = Some [(''collection_ids'', ''collection_ids''), (''filter'', ''filter''),
                       (''query'', ''query''),
                       (''natural_language_query'', ''natural_language_query''),
                       (''aggregation'', ''aggregation''), (''count'', ''count''),
                       (''return_fields'', ''return_fields''), (''offset'', ''offset''),
                       (''sort'', ''sort''), (''highlight'', ''highlight''),
                       (''deduplicate_field'', ''deduplicate_field'')],
      path_of = Some [(''environment_id'', ''environment_id'')],
      url_of = ''/v1/environments/{environment_id}/notices'',
      method_of = GET,
      json_of = False,
      headers_of = [(''accept'', ''application/json''),
                     (''content-type'', ''application/json'')]\<rparr>"

text \<open>\<open>DiscoveryV1.query\<close>\<close>

definition query :: endpoint where
  "query =
     \<lparr>requiredParams = Some [''environment_id'', ''collection_id''],
      formData_of = None,
      body_of = None,
      query_of = Some [(''filter'', ''filter''), (''query'', ''query''),
                       (''natural_language_query'', ''natural_language_query''),
                       (''passages'', ''passages''), (''aggregation'', ''aggregation''),
                       (''count'', ''count''), (''return'', ''return_fields''),
                       (''offset'', ''offset''), (''sort'', ''sort''),
                       (''highlight'', ''highlight''),
                       (''passages_fields'', ''passages_fields''),
                       (''passages_count'', ''passages_count''),
                       (''passages_characters'', ''passages_characters''),
                       (''deduplicate'', ''deduplicate''),
                       (''deduplicate_field'', ''deduplicate_field'')],
      path_of = Some [(''environment_id'', ''environment_id''),
                      (''collection_id'', ''collection_id'')],
      url_of = ''/v1/environments/{environment_id}/collections/{collection_id}/query'',
      method_of = GET,
      json_of = False,
      headers_of = [(''accept'', ''application/json''),
                     (''content-type'', ''application/json'')]\<rparr>"

text \<open>\<open>DiscoveryV1.queryNotices\<close>\<close>

definition queryNotices :: endpoint where
  "queryNotices =
     \<lparr>requiredParams = Some [''environment_id'', ''collection_id''],
      formData_of = None,
      body_of = None,
      query_of = Some [(''filter'', ''filter''), (''query'', ''query''),
                       (''natural_language_query'', ''natural_language_query''),
                       (''passages'', ''passages''), (''aggregation'', ''aggregation''),
                       (''count'', ''count''), (''return_fields'', ''return_fields''),
                       (''offset'', ''offset''), (''sort'', ''sort''),
                       (''highlight'', ''highlight''),
                       (''passages_fields'', ''passages_fields''),
                       (''passages_count'', ''passages_count''),
                       (''passages_characters'', ''passages_characters''),
                       (''deduplicate_field'', ''deduplicate_field'')],
      path_of = Some [(''environment_id'', ''environment_id''),
                      (''collection_id'', ''collection_id'')],
      url_of = ''/v1/environments/{environment_id}/collections/{collection_id}/notices'',
      method_of = GET,
      json_of = False,
      headers_of = [(''accept'', ''application/json''),
                     (''content-type'', ''application/json'')]\<rparr>"

text \<open>\<open>DiscoveryV1.addTrainingData\<close>\<close>

definition addTrainingData :: endpoint where
  "addTrainingData =
     \<lparr>requiredParams = Some [''environment_id'', ''collection_id''],
      formData_of = None,
      body_of = Some [(''natural_language_query'', ''natural_language_query''),
                      (''filter'', ''filter''), (''examples'', ''examples'')],
      query_of = None,
      path_of = Some [(''environment_id'', ''environment_id''),
                      (''collection_id'', ''collection_id'')],
      url_of = ''/v1/environments/{environment_id}/collections/{collection_id}/training_data'',
      method_of = POST,
      json_of = True,
      headers_of = [(''accept'', ''application/json''),
                     (''content-type'', ''application/json'')]\<rparr>"

text \<open>\<open>DiscoveryV1.createTrainingExample\<close>\<close>

definition createTrainingExample :: endpoint where
  "createTrainingExample =
     \<lparr>requiredParams = Some [''environment_id'', ''collection_id'', ''query_id''],
      formData_of = None,
      body_of = Some [(''document_id'', ''document_id''),
                      (''cross_reference'', ''cross_reference''), (''relevance'', ''relevance'')],
      query_of = None,
      path_of = Some [(''environment_id'', ''environment_id''),
                      (''collection_id'', ''collection_id''), (''query_id'', ''query_id'')],
      url_of = ''/v1/environments/{environment_id}/collections/{collection_id}/training_data/{query_id}/examples'',
      method_of = POST,
      json_of = True,
      headers_of = [(''accept'', ''application/json''),
                     (''content-type'', ''application/json'')]\<rparr>"

text \<open>\<open>DiscoveryV1.deleteAllTrainingData\<close>\<close>

definition deleteAllTrainingData :: endpoint where
  "deleteAllTrainingData =
     \<lparr>requiredParams = Some [''environment_id'', ''collection_id''],
      formData_of = None,
      body_of = None,
      query_of = None,
      path_of = Some [(''environment_id'', ''environment_id''),
                      (''collection_id'', ''collection_id'')],
      url_of = ''/v1/environments/{environment_id}/collections/{collection_id}/training_data'',
      method_of = DELETE,
      json_of = False,
      headers_of = [(''accept'', ''application/json''),
                     (''content-type'', ''application/json'')]\<rparr>"

text \<open>\<open>DiscoveryV1.deleteTrainingData\<close>\<close>

definition deleteTrainingData :: endpoint where
  "deleteTrainingData =
     \<lparr>requiredParams = Some [''environment_id'', ''collection_id'', ''query_id''],
      formData_of = None,
      body_of = None,
      query_of = None,
      path_of = Some [(''environment_id'', ''environment_id''),
                      (''collection_id'', ''collection_id''), (''query_id'', ''query_id'')],
      url_of = ''/v1/environments/{environment_id}/collections/{collection_id}/training_data/{query_id}'',
      method_of = DELETE,
      json_of = False,
      headers_of = [(''accept'', ''application/json''),
                     (''content-type'', ''application/json'')]\<rparr>"

text \<open>\<open>DiscoveryV1.deleteTrainingExample\<close>\<close>

definition deleteTrainingExample :: endpoint where
  "deleteTrainingExample =
     \<lparr>requiredParams = Some [''environment_id'', ''collection_id'', ''query_id'', ''example_id''],
      formData_of = None,
      body_of = None,
      query_of = None,
      path_of = Some [(''environment_id'', ''environment_id''),
                      (''collection_id'', ''collection_id''), (''query_id'', ''query_id''),
                      (''example_id'', ''example_id'')],
      url_of = ''/v1/environments/{environment_id}/collections/{collection_id}/training_data/{query_id}/examples/{example_id}'',
      method_of = DELETE,
      json_of = False,
      headers_of = [(''accept'', ''application/json''),
                     (''content-type'', ''application/json'')]\<rparr>"

text \<open>\<open>DiscoveryV1.getTrainingData\<close>\<close>

definition getTrainingData :: endpoint where
  "getTrainingData =
     \<lparr>requiredParams = Some [''environment_id'', ''collection_id'', ''query_id''],
      formData_of = None,
      body_of = None,
      query_of = None,
      path_of = Some [(''environment_id'', ''environment_id''),
                      (''collection_id'', ''collection_id''), (''query_id'', ''query_id'')],
      url_of = ''/v1/environments/{environment_id}/collections/{collection_id}/training_data/{query_id}'',
      method_of = GET,
      json_of = False,
      headers_of = [(''accept'', ''application/json''),
                     (''content-type'', ''application/json'')]\<rparr>"

text \<open>\<open>DiscoveryV1.getTrainingExample\<close>\<close>

definition getTrainingExample :: endpoint where
  "getTrainingExample =
     \<lparr>requiredParams = Some [''environment_id'', ''collection_id'', ''query_id'', ''example_id''],
      formData_of = None,
      body_of = None,
      query_of = None,
      path_of = Some [(''environment_id'', ''environment_id''),
                      (''collection_id'', ''collection_id''), (''query_id'', ''query_id''),
                      (''example_id'', ''example_id'')],
      url_of = ''/v1/environments/{environment_id}/collections/{collection_id}/training_data/{query_id}/examples/{example_id}'',
      method_of = GET,
      json_of = False,
      headers_of = [(''accept'', ''application/json''),
                     (''content-type'', ''application/json'')]\<rparr>"

text \<open>\<open>DiscoveryV1.listTrainingData\<close>\<close>

definition listTrainingData :: endpoint where
  "listTrainingData =
     \<lparr>requiredParams = Some [''environment_id'', ''collection_id''],
      formData_of = None,
      body_of = None,
      query_of = None,
      path_of = Some [(''environment_id'', ''environment_id''),
                      (''collection_id'', ''collection_id'')],
      url_of = ''/v1/environments/{environment_id}/collections/{collection_id}/training_data'',
      method_of = GET,
      json_of = False,
      headers_of = [(''accept'', ''application/json''),
                     (''content-type'', ''application/json'')]\<rparr>"

text \<open>\<open>DiscoveryV1.updateTrainingExample\<close>\<close>

definition updateTrainingExample :: endpoint where
  "updateTrainingExample =
     \<lparr>requiredParams = Some [''environment_id'', ''collection_id'', ''query_id'', ''example_id''],
      formData_of = None,
      body_of = Some [(''cross_reference'', ''cross_reference''), (''relevance'', ''relevance'')],
      query_of = None,
      path_of = Some [(''environment_id'', ''environment_id''),
                      (''collection_id'', ''collection_id''), (''query_id'', ''query_id''),
                      (''example_id'', ''example_id'')],
      url_of = ''/v1/environments/{environment_id}/collections/{collection_id}/training_data/{query_id}/examples/{example_id}'',
      method_of = PUT,
      json_of = True,
      headers_of = [(''accept'', ''application/json''),
                     (''content-type'', ''application/json'')]\<rparr>"

definition DiscoveryV1_methods :: "endpoint list" where
  "DiscoveryV1_methods =
     [createEnvironment, deleteEnvironment, getEnvironment, listEnvironments, listFields,
      updateEnvironment, createConfiguration, deleteConfiguration, getConfiguration,
      listConfigurations, updateConfiguration, testConfigurationInEnvironment, createCollection,
      deleteCollection, getCollection, listCollectionFields, listCollections, updateCollection,
      addDocument, deleteDocument, getDocumentStatus, updateDocument, federatedQuery,
      federatedQueryNotices, query, queryNotices, addTrainingData, createTrainingExample,
      deleteAllTrainingData, deleteTrainingData, deleteTrainingExample, getTrainingData,
      getTrainingExample, listTrainingData, updateTrainingExample]"


definition all_methods :: "endpoint list" where
  "all_methods = LanguageTranslatorV2_methods @ DiscoveryV1_methods"

section \<open>URL templates\<close>

text \<open>
  Modelled from the spec: the template expander lives in \<open>lib/requestwrapper\<close>, which is
  not under \<open>src/\<close>. Section 4.2: a placeholder is a \<open>{name}\<close> token of the template.
  \<open>placeholders\<close> lists the names between braces, left to right; the first argument
  holds the characters of the token being read, latest first.
\<close>

fun placeholders_from :: "string option \<Rightarrow> string \<Rightarrow> string list" where
  "placeholders_from tok [] = []"
| "placeholders_from None (c # cs) =
     (if c = CHR ''{'' then placeholders_from (Some []) cs else placeholders_from None cs)"
| "placeholders_from (Some acc) (c # cs) =
     (if c = CHR ''}'' then rev acc # placeholders_from None cs
      else placeholders_from (Some (c # acc)) cs)"

text \<open>The placeholders of a template, read from outside any token.\<close>

definition placeholders :: "string \<Rightarrow> string list" where
  "placeholders template = placeholders_from None template"

section \<open>The DiscoveryV1 constructor\<close>

text \<open>
  \<open>super(options)\<close> runs the constructor of BaseService (\<open>lib/base_service\<close>, not under
  \<open>src/\<close>), which stores the resolved options in \<open>this._options\<close>; what it stored is the
  first argument here. The constructor then throws if the stored options have no
  \<open>version_date\<close>, and otherwise writes \<open>options.version_date\<close> of its own argument to
  \<open>this._options.qs.version\<close>.
\<close>

definition version_date_error :: js_error where
  "version_date_error =
     Error ''Argument error: version_date was not specified, use DiscoveryV1.VERSION_DATE_2017_09_01''"

definition DiscoveryV1_constructor :: "jsval \<Rightarrow> jsval \<Rightarrow> js_error + client" where
  "DiscoveryV1_constructor base_options opts =
     (case get_prop base_options ''version_date'' of
        Inl err \<Rightarrow> Inl err
      | Inr Undefined \<Rightarrow> Inl version_date_error
      | Inr vd \<Rightarrow>
         (case get_prop base_options ''qs'' of
            Inl err \<Rightarrow> Inl err
          | Inr q \<Rightarrow>
             (case get_prop opts ''version_date'' of
                Inl err \<Rightarrow> Inl err
              | Inr v \<Rightarrow>
                 (case set_prop q ''version'' v of
                    Inl err \<Rightarrow> Inl err
                  | Inr q' \<Rightarrow>
                     (case set_prop base_options ''qs'' q' of
                        Inl err \<Rightarrow> Inl err
                      | Inr stored \<Rightarrow> Inr \<lparr>this_options = stored\<rparr>)))))"

text \<open>The read \<open>v.qs.version\<close>.\<close>

definition qs_version :: "jsval \<Rightarrow> js_error + jsval" where
  "qs_version v = (case get_prop v ''qs'' of Inl err \<Rightarrow> Inl err | Inr q \<Rightarrow> get_prop q ''version'')"

text \<open>A client used through a sequence of calls; the events of all calls, in order.\<close>

fun invoke_all :: "client \<Rightarrow> (endpoint \<times> params_arg \<times> callback option) list \<Rightarrow> client \<times> event list" where
  "invoke_all c [] = (c, [])"
| "invoke_all c ((e, params, cb) # calls) =
     (let r = invoke e c params cb;
          (c', evs) = invoke_all (this_after r) calls
      in (c', trace r @ evs))"

section \<open>Sample calls\<close>

text \<open>
  A translator client as BaseService leaves it, and the request of
  \<open>translate({text: 'hello'}, done)\<close> on it.
\<close>

abbreviation stored_defaults :: jsval where
  "stored_defaults \<equiv>
     Obj Plain [(''url'', Str ''https://gateway.watsonplatform.net/language-translator/api''),
                (''headers'', Obj Plain [(''X-Watson-Learning-Opt-Out'', Bool True)])]"

abbreviation translate_hello_request :: parameters where
  "translate_hello_request \<equiv>
     \<lparr>options =
        \<lparr>url = ''/v2/translate'', request_method = POST, json = True,
         body = Some [(''text'', Str ''hello''), (''model_id'', Undefined),
                      (''source'', Undefined), (''target'', Undefined)],
         qs = None, path = None, formData = None\<rparr>,
      defaultOptions =
        Obj Plain [(''url'', Str ''https://gateway.watsonplatform.net/language-translator/api''),
                   (''headers'', Obj Plain [(''X-Watson-Learning-Opt-Out'', Bool True),
                                            (''accept'', Str ''application/json''),
                                            (''content-type'', Str ''application/json'')])]\<rparr>"

text \<open>
  What BaseService stores for \<open>new DiscoveryV1({version_date: '2017-09-01'})\<close>, the
  client's options once the constructor has run, and the request of
  \<open>deleteDocument({environment_id: 'env', collection_id: 'col', document_id: 'doc'}, done)\<close>.
\<close>

abbreviation base_service_options :: jsval where
  "base_service_options \<equiv>
     Obj Plain [(''version_date'', Str ''2017-09-01''),
                (''url'', Str ''https://gateway.watsonplatform.net/discovery/api''),
                (''qs'', Obj Plain [])]"

abbreviation discovery_defaults :: jsval where
  "discovery_defaults \<equiv>
     Obj Plain [(''version_date'', Str ''2017-09-01''),
                (''url'', Str ''https://gateway.watsonplatform.net/discovery/api''),
                (''qs'', Obj Plain [(''version'', Str ''2017-09-01'')])]"

abbreviation deleteDocument_request :: parameters where
  "deleteDocument_request \<equiv>
     \<lparr>options =
        \<lparr>url = ''/v1/environments/{environment_id}/collections/{collection_id}/documents/{document_id}'',
         request_method = DELETE, json = False, body = None, qs = None,
         path = Some [(''environment_id'', Str ''env''), (''collection_id'', Str ''col''),
                      (''document_id'', Str ''doc'')],
         formData = None\<rparr>,
      defaultOptions =
        Obj Plain [(''version_date'', Str ''2017-09-01''),
                   (''url'', Str ''https://gateway.watsonplatform.net/discovery/api''),
                   (''qs'', Obj Plain [(''version'', Str ''2017-09-01'')]),
                   (''headers'', Obj Plain [(''accept'', Str ''application/json''),
                                            (''content-type'', Str ''application/json'')])]\<rparr>"

text \<open>
  The request of \<open>listModels(done)\<close> on the translator client.
\<close>

abbreviation listModels_request :: parameters where
  "listModels_request \<equiv>
     \<lparr>options =
        \<lparr>url = ''/v2/models'', request_method = GET, json = False, body = None,
         qs = Some [(''source'', Undefined), (''target'', Undefined), (''default'', Undefined)],
         path = None, formData = None\<rparr>,
      defaultOptions =
        Obj Plain [(''url'', Str ''https://gateway.watsonplatform.net/language-translator/api''),
                   (''headers'', Obj Plain [(''X-Watson-Learning-Opt-Out'', Bool True),
                                            (''accept'', Str ''application/json''),
                                            (''content-type'', Str ''application/x-www-form-urlencoded'')])]\<rparr>"

section \<open>Properties\<close>

lemmas LanguageTranslatorV2_defs =
  translate_def identify_def listIdentifiableLanguages_def createModel_def deleteModel_def
  getModel_def listModels_def

lemmas DiscoveryV1_defs =
  createEnvironment_def deleteEnvironment_def getEnvironment_def listEnvironments_def
  listFields_def updateEnvironment_def createConfiguration_def deleteConfiguration_def
  getConfiguration_def listConfigurations_def updateConfiguration_def
  testConfigurationInEnvironment_def createCollection_def deleteCollection_def
  getCollection_def listCollectionFields_def listCollections_def updateCollection_def
  addDocument_def deleteDocument_def getDocumentStatus_def updateDocument_def
  federatedQuery_def federatedQueryNotices_def query_def queryNotices_def
  addTrainingData_def createTrainingExample_def deleteAllTrainingData_def
  deleteTrainingData_def deleteTrainingExample_def getTrainingData_def
  getTrainingExample_def listTrainingData_def updateTrainingExample_def

subsection \<open>Reading parameters\<close>

lemma read_param_defined:
  "params \<noteq> PUndefined \<Longrightarrow> params \<noteq> PNull \<Longrightarrow> \<exists>v. read_param params k = Inr v"
  by (cases "(params, k)" rule: read_param.cases) auto

lemma read_fields_keys:
  "read_fields params fs = Inr kvs \<Longrightarrow> map fst kvs = map fst fs"
  by (induction fs arbitrary: kvs) (auto split: sum.splits)

lemma read_fields_defined:
  assumes "params \<noteq> PUndefined" and "params \<noteq> PNull"
  shows "\<exists>kvs. read_fields params fs = Inr kvs"
proof (induction fs)
  case Nil
  show ?case by simp
next
  case (Cons f fs)
  obtain k p where f: "f = (k, p)" by (cases f)
  obtain v where "read_param params p = Inr v"
    using read_param_defined[OF assms] by blast
  with Cons f show ?case by auto
qed

lemma read_literal_keys:
  "read_literal params lit = Inr r \<Longrightarrow> map_option (map fst) r = map_option (map fst) lit"
  by (cases lit) (auto split: sum.splits dest: read_fields_keys)

lemma read_literal_defined:
  assumes "params \<noteq> PUndefined" and "params \<noteq> PNull"
  shows "\<exists>r. read_literal params lit = Inr r"
proof (cases lit)
  case None
  then show ?thesis by simp
next
  case (Some fs)
  obtain kvs where "read_fields params fs = Inr kvs"
    using read_fields_defined[OF assms] by blast
  with Some show ?thesis by simp
qed

lemma read_form_parts_defined:
  assumes "params \<noteq> PUndefined" and "params \<noteq> PNull"
  shows "\<exists>kvs. read_form_parts params parts = Inr kvs"
proof (induction parts)
  case Nil
  show ?case by simp
next
  case (Cons part parts)
  then obtain kvs where kvs: "read_form_parts params parts = Inr kvs" by blast
  show ?case
  proof (cases part)
    case (FilePart k p ct)
    obtain data where d: "read_param params p = Inr data"
      using read_param_defined[OF assms] by blast
    obtain ctv where c: "read_content_type params ct = Inr ctv"
      using read_param_defined[OF assms] by (cases ct) auto
    show ?thesis using FilePart kvs d c by simp
  next
    case (TextPart p)
    obtain v where "read_param params p = Inr v"
      using read_param_defined[OF assms] by blast
    then show ?thesis using TextPart kvs by simp
  qed
qed

lemma read_formData_defined:
  assumes "params \<noteq> PUndefined" and "params \<noteq> PNull"
  shows "\<exists>r. read_formData params fd = Inr r"
proof (cases fd)
  case None
  then show ?thesis by simp
next
  case (Some parts)
  obtain kvs where "read_form_parts params parts = Inr kvs"
    using read_form_parts_defined[OF assms] by blast
  with Some show ?thesis by simp
qed

lemma read_formData_None:
  "read_formData params fd = Inr r \<Longrightarrow> (r = None) = (fd = None)"
  by (cases fd) (auto split: sum.splits)

lemma read_literal_None:
  "read_literal params lit = Inr r \<Longrightarrow> (r = None) = (lit = None)"
  by (cases lit) (auto split: sum.splits)

subsection \<open>The options literal\<close>

lemma build_options_defined:
  assumes "params \<noteq> PUndefined" and "params \<noteq> PNull"
  shows "\<exists>opts. build_options e params = Inr opts"
proof -
  obtain fd where 1: "read_formData params (formData_of e) = Inr fd"
    using read_formData_defined[OF assms] by blast
  obtain b where 2: "read_literal params (body_of e) = Inr b"
    using read_literal_defined[OF assms] by blast
  obtain q where 3: "read_literal params (query_of e) = Inr q"
    using read_literal_defined[OF assms] by blast
  obtain pth where 4: "read_literal params (path_of e) = Inr pth"
    using read_literal_defined[OF assms] by blast
  show ?thesis by (simp add: build_options_def 1 2 3 4)
qed

lemma build_options_shape:
  assumes "build_options e params = Inr opts"
  shows "url opts = url_of e" and "request_method opts = method_of e" and "json opts = json_of e"
    and "(body opts = None) = (body_of e = None)"
    and "(formData opts = None) = (formData_of e = None)"
    and "map_option (map fst) (path opts) = map_option (map fst) (path_of e)"
  using assms
  by (auto simp: build_options_def split: sum.splits
           dest: read_literal_None read_formData_None read_literal_keys)

subsection \<open>What a call does\<close>

lemma send_trace:
  "RequestFactoryCall p g \<in> set (trace (send e c params cb)) \<Longrightarrow>
     build_options e params = Inr (options p) \<and>
     defaultOptions p = extend_true (this_options c) (headers_overlay e) \<and> g = cb"
  by (auto simp: send_def split: sum.splits)

lemma invoke_trace:
  assumes "RequestFactoryCall p g \<in> set (trace (invoke e c params cb))"
  shows "\<exists>params'. build_options e params' = Inr (options p)"
    and "defaultOptions p = extend_true (this_options c) (headers_overlay e)"
  using assms
  by (auto simp: invoke_def split: option.splits prod.splits params_arg.splits dest!: send_trace)

subsection \<open>What holds of each generated method\<close>

lemma exclusive_LanguageTranslatorV2:
  "list_all (\<lambda>e. body_of e = None \<or> formData_of e = None) LanguageTranslatorV2_methods"
  by (simp add: LanguageTranslatorV2_methods_def LanguageTranslatorV2_defs)

lemma exclusive_DiscoveryV1:
  "list_all (\<lambda>e. body_of e = None \<or> formData_of e = None) DiscoveryV1_methods"
  by (simp add: DiscoveryV1_methods_def DiscoveryV1_defs)

lemma exclusive_all:
  "e \<in> set all_methods \<Longrightarrow> body_of e = None \<or> formData_of e = None"
  using exclusive_LanguageTranslatorV2 exclusive_DiscoveryV1
  unfolding all_methods_def list_all_iff by auto

lemma placeholders_LanguageTranslatorV2:
  "list_all (\<lambda>e. placeholders (url_of e) = map fst (case path_of e of None \<Rightarrow> [] | Some fs \<Rightarrow> fs))
     LanguageTranslatorV2_methods"
  by (simp add: LanguageTranslatorV2_methods_def LanguageTranslatorV2_defs placeholders_def)

lemma placeholders_DiscoveryV1:
  "list_all (\<lambda>e. placeholders (url_of e) = map fst (case path_of e of None \<Rightarrow> [] | Some fs \<Rightarrow> fs))
     DiscoveryV1_methods"
  by (simp add: DiscoveryV1_methods_def DiscoveryV1_defs placeholders_def)

lemma placeholders_all:
  "e \<in> set all_methods \<Longrightarrow>
     placeholders (url_of e) = map fst (case path_of e of None \<Rightarrow> [] | Some fs \<Rightarrow> fs)"
  using placeholders_LanguageTranslatorV2 placeholders_DiscoveryV1
  unfolding all_methods_def list_all_iff by auto

lemma null_params_LanguageTranslatorV2:
  "list_all (\<lambda>e. requiredParams e \<noteq> None \<longrightarrow>
               requiredParams e \<noteq> Some [] \<and>
               build_options e PUndefined = Inl TypeError \<and>
               build_options e PNull = Inl TypeError)
     LanguageTranslatorV2_methods"
  by (simp add: LanguageTranslatorV2_methods_def LanguageTranslatorV2_defs build_options_def)

lemma null_params_DiscoveryV1:
  "list_all (\<lambda>e. requiredParams e \<noteq> None \<longrightarrow>
               requiredParams e \<noteq> Some [] \<and>
               build_options e PUndefined = Inl TypeError \<and>
               build_options e PNull = Inl TypeError)
     DiscoveryV1_methods"
  by (simp add: DiscoveryV1_methods_def DiscoveryV1_defs build_options_def)

lemma null_params_all:
  assumes "e \<in> set all_methods" and "requiredParams e = Some required"
  shows "required \<noteq> []"
    and "build_options e PUndefined = Inl TypeError"
    and "build_options e PNull = Inl TypeError"
  using assms null_params_LanguageTranslatorV2 null_params_DiscoveryV1
  unfolding all_methods_def list_all_iff by auto

lemma optional_LanguageTranslatorV2:
  "list_all (\<lambda>e. requiredParams e = None \<longrightarrow> e = listIdentifiableLanguages \<or> e = listModels)
     LanguageTranslatorV2_methods"
  by (simp add: LanguageTranslatorV2_methods_def translate_def identify_def createModel_def
        deleteModel_def getModel_def)

lemma optional_DiscoveryV1:
  "list_all (\<lambda>e. requiredParams e = None \<longrightarrow> e = listEnvironments) DiscoveryV1_methods"
  by (simp add: DiscoveryV1_methods_def
  createEnvironment_def deleteEnvironment_def getEnvironment_def 
  listFields_def updateEnvironment_def createConfiguration_def deleteConfiguration_def
  getConfiguration_def listConfigurations_def updateConfiguration_def
  testConfigurationInEnvironment_def createCollection_def deleteCollection_def
  getCollection_def listCollectionFields_def listCollections_def updateCollection_def
  addDocument_def deleteDocument_def getDocumentStatus_def updateDocument_def
  federatedQuery_def federatedQueryNotices_def query_def queryNotices_def
  addTrainingData_def createTrainingExample_def deleteAllTrainingData_def
  deleteTrainingData_def deleteTrainingExample_def getTrainingData_def
  getTrainingExample_def listTrainingData_def updateTrainingExample_def)

lemma optional_all:
  "e \<in> set all_methods \<Longrightarrow> requiredParams e = None \<Longrightarrow>
     e = listIdentifiableLanguages \<or> e = listModels \<or> e = listEnvironments"
  using optional_LanguageTranslatorV2 optional_DiscoveryV1
  unfolding all_methods_def list_all_iff by auto

lemma validateRequired_filter:
  "validateRequired params required = filter (\<lambda>r. \<not> truthy (peek_param params r)) required"
  by (induction required) auto

lemma not_truthy_iff:
  "(\<not> truthy v) = (v = Undefined \<or> v = Null \<or> v = Bool False \<or> v = Num 0 \<or> v = Str [])"
  by (cases v) auto

lemma all_optional_methods:
  "listIdentifiableLanguages \<in> set all_methods \<and> requiredParams listIdentifiableLanguages = None \<and>
   listModels \<in> set all_methods \<and> requiredParams listModels = None \<and>
   listEnvironments \<in> set all_methods \<and> requiredParams listEnvironments = None"
  by (simp add: all_methods_def LanguageTranslatorV2_methods_def DiscoveryV1_methods_def
        listIdentifiableLanguages_def listModels_def listEnvironments_def)

lemma json_content_type_LanguageTranslatorV2:
  "list_all (\<lambda>e. json_of e \<longrightarrow> body_of e \<noteq> None \<longrightarrow> e \<noteq> identify \<longrightarrow>
               map_of (headers_of e) ''content-type'' = Some ''application/json'')
     LanguageTranslatorV2_methods"
  by (simp add: LanguageTranslatorV2_methods_def translate_def listIdentifiableLanguages_def
        createModel_def deleteModel_def getModel_def listModels_def)

lemma json_content_type_DiscoveryV1:
  "list_all (\<lambda>e. json_of e \<longrightarrow> body_of e \<noteq> None \<longrightarrow>
               map_of (headers_of e) ''content-type'' = Some ''application/json'')
     DiscoveryV1_methods"
  by (simp add: DiscoveryV1_methods_def DiscoveryV1_defs)

subsection \<open>The version of a Discovery client\<close>

lemma qs_version_headers:
  "qs_version (Obj k (extend_props ps (headers_overlay e))) = qs_version (Obj k ps)"
  by (simp add: qs_version_def headers_overlay_def AList.update_conv')

lemma invoke_this_options:
  "this_options (this_after (invoke e c params cb)) = this_options c \<or>
   this_options (this_after (invoke e c params cb)) =
     extend_target_after (this_options c) (headers_overlay e)"
  by (auto simp: invoke_def send_def split: option.splits prod.splits params_arg.splits sum.splits)

lemma invoke_keeps_version:
  assumes "this_options c = Obj k ps"
  shows "\<exists>ps'. this_options (this_after (invoke e c params cb)) = Obj k ps' \<and>
           qs_version (Obj k ps') = qs_version (Obj k ps)"
proof -
  have "extend_target_after (Obj k ps) (headers_overlay e) =
          extend_true (Obj k ps) (headers_overlay e)" by simp
  moreover have "\<exists>ps'. extend_true (Obj k ps) (headers_overlay e) = Obj k ps'" by simp
  ultimately show ?thesis
    using invoke_this_options[of e c params cb] assms qs_version_headers[of k ps e]
    by auto
qed

lemma invoke_carries_version:
  assumes "this_options c = Obj k ps"
    and "RequestFactoryCall p g \<in> set (trace (invoke e c params cb))"
  shows "qs_version (defaultOptions p) = qs_version (Obj k ps)"
  using invoke_trace(2)[OF assms(2)] assms(1) by (simp add: qs_version_headers)

lemma invoke_all_carries_version:
  assumes "this_options c = Obj k ps"
    and "RequestFactoryCall p g \<in> set (snd (invoke_all c calls))"
  shows "qs_version (defaultOptions p) = qs_version (Obj k ps)"
  using assms
proof (induction calls arbitrary: c ps)
  case Nil
  then show ?case by simp
next
  case (Cons call calls)
  obtain e params cb where call: "call = (e, params, cb)" by (cases call)
  obtain ps' where keep: "this_options (this_after (invoke e c params cb)) = Obj k ps'"
    and same: "qs_version (Obj k ps') = qs_version (Obj k ps)"
    using invoke_keeps_version[OF Cons.prems(1)] by blast
  from Cons.prems(2) call
  have "RequestFactoryCall p g \<in> set (trace (invoke e c params cb)) \<or>
        RequestFactoryCall p g \<in> set (snd (invoke_all (this_after (invoke e c params cb)) calls))"
    by (auto simp: Let_def split: prod.splits)
  then show ?case
  proof
    assume "RequestFactoryCall p g \<in> set (trace (invoke e c params cb))"
    then show ?thesis by (rule invoke_carries_version[OF Cons.prems(1)])
  next
    assume "RequestFactoryCall p g \<in> set (snd (invoke_all (this_after (invoke e c params cb)) calls))"
    then have "qs_version (defaultOptions p) = qs_version (Obj k ps')"
      by (rule Cons.IH[OF keep])
    with same show ?thesis by simp
  qed
qed

lemma constructor_cases:
  assumes "map_of ps ''qs'' = Some (Obj kq q)"
  shows "DiscoveryV1_constructor (Obj k ps) (Obj ko os) =
     (if get_prop (Obj k ps) ''version_date'' = Inr Undefined then Inl version_date_error
      else Inr \<lparr>this_options =
             Obj k (AList.update ''qs''
                      (Obj kq (AList.update ''version''
                                 (case map_of os ''version_date'' of None \<Rightarrow> Undefined | Some v \<Rightarrow> v) q))
                      ps)\<rparr>)"
  using assms by (auto simp: DiscoveryV1_constructor_def split: option.splits jsval.splits)

subsection \<open>What a call leaves alone\<close>






subsection \<open>Sample calls, evaluated\<close>

lemma translate_method: "translate \<in> set all_methods"
  by (simp add: all_methods_def LanguageTranslatorV2_methods_def)

lemma deleteDocument_method: "deleteDocument \<in> set all_methods"
  by (simp add: all_methods_def DiscoveryV1_methods_def)

lemma listModels_method: "listModels \<in> set all_methods"
  by (simp add: all_methods_def LanguageTranslatorV2_methods_def)

lemma invoke_translate_hello:
  "invoke translate \<lparr>this_options = stored_defaults\<rparr> (PObj [(''text'', Str ''hello'')]) (Some (Fn ''done'')) =
     \<lparr>this_after = \<lparr>this_options = defaultOptions translate_hello_request\<rparr>,
      trace = [RequestFactoryCall translate_hello_request (Some (Fn ''done''))],
      completion = Returned\<rparr>"
  by (simp add: invoke_def send_def translate_def build_options_def getMissingParams_def
        headers_overlay_def)

lemma invoke_deleteDocument:
  "invoke deleteDocument \<lparr>this_options = discovery_defaults\<rparr>
     (PObj [(''environment_id'', Str ''env''), (''collection_id'', Str ''col''),
            (''document_id'', Str ''doc'')])
     (Some (Fn ''done'')) =
     \<lparr>this_after = \<lparr>this_options = defaultOptions deleteDocument_request\<rparr>,
      trace = [RequestFactoryCall deleteDocument_request (Some (Fn ''done''))],
      completion = Returned\<rparr>"
  by (simp add: invoke_def send_def deleteDocument_def build_options_def getMissingParams_def
        headers_overlay_def)


section \<open>The claims\<close>





text \<open>
  C2. For every method with required parameters: when validation reports missing
  parameters and a callback was given, the call does nothing but invoke that callback
  once with the error, which lists the missing names in order and is not empty;
  \<open>requestFactory\<close> is not called and the client is untouched.
\<close>

theorem validation_failure_reaches_callback:
  assumes "e \<in> set all_methods"
    and "requiredParams e = Some required"
    and "getMissingParams (or_empty params) required = Some err"
  shows "required \<noteq> [] \<and>
         invoke e c params (Some f) =
           \<lparr>this_after = c, trace = [CallbackCall f err], completion = Returned\<rparr> \<and>
         missing err = validateRequired (or_empty params) required \<and>
         missing err \<noteq> []"
proof -
  have a: "required \<noteq> []" using null_params_all(1)[OF assms(1,2)] .
  have b: "invoke e c params (Some f) =
      \<lparr>this_after = c, trace = [CallbackCall f err], completion = Returned\<rparr>"
    using assms(2,3) by (simp add: invoke_def)
  have c: "missing err = validateRequired (or_empty params) required"
    using assms(3) by (auto simp: getMissingParams_def Let_def split: if_splits)
  have d: "missing err \<noteq> []"
    using assms(3) by (auto simp: getMissingParams_def Let_def split: if_splits)
  show ?thesis by (intro conjI a b c d)
qed

theorem validation_failure_reaches_callback_witness:
  "translate \<in> set all_methods \<and>
   requiredParams translate = Some [''text''] \<and>
   getMissingParams (or_empty (PObj [])) [''text''] = Some (MissingParamsError [''text'']) \<and>
   invoke translate \<lparr>this_options = stored_defaults\<rparr> (PObj []) (Some (Fn ''done'')) =
     \<lparr>this_after = \<lparr>this_options = stored_defaults\<rparr>,
      trace = [CallbackCall (Fn ''done'') (MissingParamsError [''text''])],
      completion = Returned\<rparr>"
proof -
  have m: "translate \<in> set all_methods" by (rule translate_method)
  have r: "requiredParams translate = Some [''text'']" by (simp add: translate_def)
  have g: "getMissingParams (or_empty (PObj [])) [''text''] = Some (MissingParamsError [''text''])"
    by (simp add: getMissingParams_def)
  from m r g validation_failure_reaches_callback[OF m r g] show ?thesis by simp
qed

text \<open>
  C3, as stated: whenever the callback is omitted, a validation failure still builds
  the descriptor and calls \<open>requestFactory\<close>. It fails for \<open>translate(undefined)\<close>:
  validation reports \<open>text\<close> missing, no callback is there to take it, and the read
  \<open>params.text\<close> throws before anything is built.
\<close>

theorem no_request_without_params_counterexample:
  "requiredParams translate = Some [''text''] \<and>
   getMissingParams (or_empty PUndefined) [''text''] = Some (MissingParamsError [''text'']) \<and>
   trace (invoke translate \<lparr>this_options = stored_defaults\<rparr> PUndefined None) = [] \<and>
   completion (invoke translate \<lparr>this_options = stored_defaults\<rparr> PUndefined None) = Threw TypeError"
  by (simp add: invoke_def send_def translate_def build_options_def getMissingParams_def)

text \<open>
  C3, amended: for every method with required parameters, when the callback is omitted
  and \<open>params\<close> is neither \<open>undefined\<close> nor \<open>null\<close>, a validation failure does not
  short-circuit the call: no callback is invoked, the descriptor is built, and
  \<open>requestFactory\<close> is called once, with no callback.
\<close>

theorem validation_failure_without_callback_dispatches:
  assumes "e \<in> set all_methods"
    and "requiredParams e = Some required"
    and "getMissingParams (or_empty params) required = Some err"
    and "params \<noteq> PUndefined" and "params \<noteq> PNull"
  shows "\<exists>opts. build_options e params = Inr opts \<and>
           invoke e c params None =
             \<lparr>this_after = c\<lparr>this_options := extend_target_after (this_options c) (headers_overlay e)\<rparr>,
              trace = [RequestFactoryCall
                         \<lparr>options = opts,
                          defaultOptions = extend_true (this_options c) (headers_overlay e)\<rparr>
                         None],
              completion = Returned\<rparr>"
proof -
  obtain opts where o: "build_options e params = Inr opts"
    using build_options_defined[OF assms(4,5)] by blast
  have "invoke e c params None = send e c params None"
    using assms(2) by (simp add: invoke_def split: option.splits)
  with o show ?thesis by (simp add: send_def)
qed


theorem validation_failure_without_callback_dispatches_witness:
  "translate \<in> set all_methods \<and>
   requiredParams translate = Some [''text''] \<and>
   getMissingParams (or_empty (PObj [])) [''text''] = Some (MissingParamsError [''text'']) \<and>
   PObj [] \<noteq> PUndefined \<and> PObj [] \<noteq> PNull \<and>
   (\<exists>opts. build_options translate (PObj []) = Inr opts \<and>
      invoke translate \<lparr>this_options = stored_defaults\<rparr> (PObj []) None =
        \<lparr>this_after =
           \<lparr>this_options = stored_defaults\<rparr>
             \<lparr>this_options := extend_target_after stored_defaults (headers_overlay translate)\<rparr>,
         trace = [RequestFactoryCall
                    \<lparr>options = opts,
                     defaultOptions = extend_true stored_defaults (headers_overlay translate)\<rparr>
                    None],
         completion = Returned\<rparr>)"
proof -
  have m: "translate \<in> set all_methods" by (rule translate_method)
  have r: "requiredParams translate = Some [''text'']" by (simp add: translate_def)
  have g: "getMissingParams (or_empty (PObj [])) [''text''] = Some (MissingParamsError [''text''])"
    by (simp add: getMissingParams_def)
  have u: "PObj [] \<noteq> PUndefined" and n: "PObj [] \<noteq> PNull" by simp_all
  from validation_failure_without_callback_dispatches[OF m r g u n, of "\<lparr>this_options = stored_defaults\<rparr>"]
  have "\<exists>opts. build_options translate (PObj []) = Inr opts \<and>
      invoke translate \<lparr>this_options = stored_defaults\<rparr> (PObj []) None =
        \<lparr>this_after =
           \<lparr>this_options = stored_defaults\<rparr>
             \<lparr>this_options := extend_target_after stored_defaults (headers_overlay translate)\<rparr>,
         trace = [RequestFactoryCall
                    \<lparr>options = opts,
                     defaultOptions = extend_true stored_defaults (headers_overlay translate)\<rparr>
                    None],
         completion = Returned\<rparr>"
    by simp
  with m r g u n show ?thesis by (intro conjI)
qed

text \<open>
  C4. The claim: a method whose descriptor carries a JSON body (\<open>json: true\<close> with a
  \<open>body\<close>) sets the content-type header to \<open>application/json\<close>. Every such method
  does (\<open>json_content_type_LanguageTranslatorV2\<close>, \<open>json_content_type_DiscoveryV1\<close>)
  except \<open>identify\<close>. Evaluated at \<open>identify({text: 'hello'}, done)\<close>: the body is the
  JSON object and the content type is \<open>text/plain\<close>.
\<close>

theorem identify_json_body_sent_as_text_plain:
  "trace (invoke identify \<lparr>this_options = stored_defaults\<rparr>
            (PObj [(''text'', Str ''hello'')]) (Some (Fn ''done''))) =
     [RequestFactoryCall
        \<lparr>options =
           \<lparr>url = ''/v2/identify'', request_method = POST, json = True,
            body = Some [(''text'', Str ''hello'')],
            qs = None, path = None, formData = None\<rparr>,
         defaultOptions =
           Obj Plain [(''url'', Str ''https://gateway.watsonplatform.net/language-translator/api''),
                      (''headers'', Obj Plain [(''X-Watson-Learning-Opt-Out'', Bool True),
                                               (''accept'', Str ''application/json''),
                                               (''content-type'', Str ''text/plain'')])]\<rparr>
        (Some (Fn ''done''))]"
  by (simp add: invoke_def send_def identify_def build_options_def getMissingParams_def
        headers_overlay_def)

text \<open>
  C5. For every method of both clients, the request descriptor handed to
  \<open>requestFactory\<close> never holds both a JSON body and multipart form data: of
  \<open>options.body\<close> and \<open>options.formData\<close> at most one is written.
\<close>

theorem body_formData_exclusive:
  assumes "e \<in> set all_methods"
    and "RequestFactoryCall p g \<in> set (trace (invoke e c params cb))"
  shows "body (options p) = None \<or> formData (options p) = None"
proof -
  obtain params' where "build_options e params' = Inr (options p)"
    using invoke_trace(1)[OF assms(2)] by blast
  then have "(body (options p) = None) = (body_of e = None)"
    and "(formData (options p) = None) = (formData_of e = None)"
    by (rule build_options_shape)+
  with exclusive_all[OF assms(1)] show ?thesis by simp
qed

theorem body_formData_exclusive_witness:
  "translate \<in> set all_methods \<and>
   RequestFactoryCall translate_hello_request (Some (Fn ''done''))
     \<in> set (trace (invoke translate \<lparr>this_options = stored_defaults\<rparr>
                 (PObj [(''text'', Str ''hello'')]) (Some (Fn ''done'')))) \<and>
   (body (options translate_hello_request) = None \<or>
    formData (options translate_hello_request) = None)"
proof -
  have m: "translate \<in> set all_methods" by (rule translate_method)
  have t: "RequestFactoryCall translate_hello_request (Some (Fn ''done''))
     \<in> set (trace (invoke translate \<lparr>this_options = stored_defaults\<rparr>
                 (PObj [(''text'', Str ''hello'')]) (Some (Fn ''done''))))"
    by (simp add: invoke_translate_hello)
  from m t body_formData_exclusive[OF m t] show ?thesis by blast
qed

text \<open>
  C6. For every method of both clients, the placeholders of the url of a descriptor
  handed to \<open>requestFactory\<close> are exactly the keys of its \<open>path\<close> object, in the same
  order; a url without placeholders comes without a \<open>path\<close>.
\<close>

theorem placeholders_have_path_keys:
  assumes "e \<in> set all_methods"
    and "RequestFactoryCall p g \<in> set (trace (invoke e c params cb))"
  shows "placeholders (url (options p)) =
           (case path (options p) of None \<Rightarrow> [] | Some kvs \<Rightarrow> map fst kvs)"
proof -
  obtain params' where b: "build_options e params' = Inr (options p)"
    using invoke_trace(1)[OF assms(2)] by blast
  have u: "url (options p) = url_of e"
    and k: "map_option (map fst) (path (options p)) = map_option (map fst) (path_of e)"
    using build_options_shape[OF b] by simp_all
  have "(case path (options p) of None \<Rightarrow> [] | Some kvs \<Rightarrow> map fst kvs) =
        (case path_of e of None \<Rightarrow> [] | Some fs \<Rightarrow> map fst fs)"
    using k by (cases "path (options p)"; cases "path_of e") auto
  also have "\<dots> = map fst (case path_of e of None \<Rightarrow> [] | Some fs \<Rightarrow> fs)"
    by (cases "path_of e") auto
  finally show ?thesis using placeholders_all[OF assms(1)] u by simp
qed

theorem placeholders_have_path_keys_witness:
  "deleteDocument \<in> set all_methods \<and>
   RequestFactoryCall deleteDocument_request (Some (Fn ''done''))
     \<in> set (trace (invoke deleteDocument \<lparr>this_options = discovery_defaults\<rparr>
                 (PObj [(''environment_id'', Str ''env''), (''collection_id'', Str ''col''),
                        (''document_id'', Str ''doc'')])
                 (Some (Fn ''done'')))) \<and>
   placeholders (url (options deleteDocument_request)) =
     [''environment_id'', ''collection_id'', ''document_id'']"
proof -
  have m: "deleteDocument \<in> set all_methods" by (rule deleteDocument_method)
  have t: "RequestFactoryCall deleteDocument_request (Some (Fn ''done''))
     \<in> set (trace (invoke deleteDocument \<lparr>this_options = discovery_defaults\<rparr>
                 (PObj [(''environment_id'', Str ''env''), (''collection_id'', Str ''col''),
                        (''document_id'', Str ''doc'')])
                 (Some (Fn ''done''))))"
    by (simp add: invoke_deleteDocument)
  from m t placeholders_have_path_keys[OF m t] show ?thesis by simp
qed

text \<open>
  C7, as stated: the validation step never reports a key present with an empty string,
  \<open>0\<close> or \<open>false\<close>. The check is \<open>!params[name]\<close>: for \<open>{text: ''}\<close> and the required
  name \<open>text\<close> it reports \<open>text\<close>, and \<open>translate({text: ''}, done)\<close> ends in the callback.
\<close>

theorem falsy_values_not_missing_counterexample:
  "map_of [(''text'', Str [])] ''text'' = Some (Str []) \<and>
   validateRequired (or_empty (PObj [(''text'', Str [])])) [''text''] = [''text''] \<and>
   getMissingParams (or_empty (PObj [(''text'', Str [])])) [''text'']
     = Some (MissingParamsError [''text'']) \<and>
   validateRequired (or_empty (PObj [(''name'', Num 0), (''environment_id'', Bool False)]))
     [''environment_id'', ''name''] = [''environment_id'', ''name''] \<and>
   trace (invoke translate \<lparr>this_options = stored_defaults\<rparr> (PObj [(''text'', Str [])])
            (Some (Fn ''done'')))
     = [CallbackCall (Fn ''done'') (MissingParamsError [''text''])]"
  by (simp add: getMissingParams_def invoke_def translate_def)

text \<open>
  C7, amended: the validation step \<open>getMissingParams(P || {}, R)\<close> reports exactly the
  names of \<open>R\<close>, in order, whose value in \<open>P\<close> is absent or falsy (\<open>undefined\<close>, \<open>null\<close>,
  \<open>false\<close>, \<open>0\<close>, the empty string); all of \<open>R\<close> when \<open>P\<close> itself is \<open>undefined\<close> or \<open>null\<close>.
  A key present with a truthy value is never reported; a required key present with an
  empty string, \<open>0\<close> or \<open>false\<close> is.
\<close>

theorem getMissingParams_reports_falsy:
  "validateRequired (or_empty (PObj ps)) required =
     filter (\<lambda>r. map_of ps r = None \<or> map_of ps r = Some Undefined \<or> map_of ps r = Some Null \<or>
                 map_of ps r = Some (Bool False) \<or> map_of ps r = Some (Num 0) \<or>
                 map_of ps r = Some (Str [])) required \<and>
   validateRequired (or_empty PUndefined) required = required \<and>
   validateRequired (or_empty PNull) required = required \<and>
   ((\<exists>v. map_of ps k = Some v \<and> truthy v) \<longrightarrow>
      k \<notin> set (validateRequired (or_empty (PObj ps)) required)) \<and>
   (k \<in> set required \<and>
    (map_of ps k = Some (Str []) \<or> map_of ps k = Some (Num 0) \<or> map_of ps k = Some (Bool False)) \<longrightarrow>
      k \<in> set (validateRequired (or_empty (PObj ps)) required)) \<and>
   (case getMissingParams (or_empty (PObj ps)) required of None \<Rightarrow> [] | Some err \<Rightarrow> missing err) =
     validateRequired (or_empty (PObj ps)) required"
proof -
  have f: "\<And>r. (\<not> truthy (peek_param (PObj ps) r)) =
             (map_of ps r = None \<or> map_of ps r = Some Undefined \<or> map_of ps r = Some Null \<or>
              map_of ps r = Some (Bool False) \<or> map_of ps r = Some (Num 0) \<or>
              map_of ps r = Some (Str []))"
    by (auto simp: not_truthy_iff split: option.splits)
  have a: "validateRequired (or_empty (PObj ps)) required =
     filter (\<lambda>r. map_of ps r = None \<or> map_of ps r = Some Undefined \<or> map_of ps r = Some Null \<or>
                 map_of ps r = Some (Bool False) \<or> map_of ps r = Some (Num 0) \<or>
                 map_of ps r = Some (Str [])) required"
    by (simp only: or_empty.simps validateRequired_filter f)
  have b: "validateRequired (or_empty PUndefined) required = required"
    by (simp add: validateRequired_filter)
  have c: "validateRequired (or_empty PNull) required = required"
    by (simp add: validateRequired_filter)
  have d: "(\<exists>v. map_of ps k = Some v \<and> truthy v) \<longrightarrow>
      k \<notin> set (validateRequired (or_empty (PObj ps)) required)"
    unfolding a by auto
  have e: "k \<in> set required \<and>
    (map_of ps k = Some (Str []) \<or> map_of ps k = Some (Num 0) \<or> map_of ps k = Some (Bool False)) \<longrightarrow>
      k \<in> set (validateRequired (or_empty (PObj ps)) required)"
    unfolding a by auto
  have g: "(case getMissingParams (or_empty (PObj ps)) required of None \<Rightarrow> [] | Some err \<Rightarrow> missing err) =
     validateRequired (or_empty (PObj ps)) required"
    by (simp add: getMissingParams_def Let_def)
  show ?thesis by (intro conjI a b c d e g)
qed

theorem getMissingParams_reports_falsy_witness:
  "validateRequired (or_empty (PObj [(''text'', Str []), (''source'', Str ''en'')]))
     [''text'', ''source'', ''target''] = [''text'', ''target''] \<and>
   (\<exists>v. map_of [(''text'', Str []), (''source'', Str ''en'')] ''source'' = Some v \<and> truthy v) \<and>
   ''source'' \<notin> set (validateRequired (or_empty (PObj [(''text'', Str []), (''source'', Str ''en'')]))
                       [''text'', ''source'', ''target'']) \<and>
   ''text'' \<in> set [''text'', ''source'', ''target''] \<and>
   map_of [(''text'', Str []), (''source'', Str ''en'')] ''text'' = Some (Str []) \<and>
   ''text'' \<in> set (validateRequired (or_empty (PObj [(''text'', Str []), (''source'', Str ''en'')]))
                     [''text'', ''source'', ''target''])"
  using getMissingParams_reports_falsy[of "[(''text'', Str []), (''source'', Str ''en'')]"
          "[''text'', ''source'', ''target'']" "''source''"]
        getMissingParams_reports_falsy[of "[(''text'', Str []), (''source'', Str ''en'')]"
          "[''text'', ''source'', ''target'']" "''text''"]
  by simp

text \<open>
  C8. A method whose parameters are all optional is one of listIdentifiableLanguages,
  listModels and listEnvironments. Calling it with a function alone is the same as
  calling it with an empty bag and that function as the callback: the descriptor is the
  one built from the empty bag, it goes to \<open>requestFactory\<close> once, with the function as
  the callback, and the call returns.
\<close>

theorem function_alone_is_callback:
  assumes "e \<in> set all_methods" and "requiredParams e = None"
  shows "(e = listIdentifiableLanguages \<or> e = listModels \<or> e = listEnvironments) \<and>
         invoke e c (PFunc f) None = invoke e c (PObj []) (Some f) \<and>
         (\<exists>opts. build_options e (PObj []) = Inr opts \<and>
            invoke e c (PFunc f) None =
              \<lparr>this_after = c\<lparr>this_options := extend_target_after (this_options c) (headers_overlay e)\<rparr>,
               trace = [RequestFactoryCall
                          \<lparr>options = opts,
                           defaultOptions = extend_true (this_options c) (headers_overlay e)\<rparr>
                          (Some f)],
               completion = Returned\<rparr>)"
proof -
  have a: "e = listIdentifiableLanguages \<or> e = listModels \<or> e = listEnvironments"
    by (rule optional_all[OF assms])
  have s: "invoke e c (PFunc f) None = send e c (PObj []) (Some f)"
    using assms(2) by (simp add: invoke_def)
  have b: "invoke e c (PFunc f) None = invoke e c (PObj []) (Some f)"
    using assms(2) by (simp add: invoke_def)
  obtain opts where o: "build_options e (PObj []) = Inr opts"
    using build_options_defined[of "PObj []" e] by auto
  have "invoke e c (PFunc f) None =
              \<lparr>this_after = c\<lparr>this_options := extend_target_after (this_options c) (headers_overlay e)\<rparr>,
               trace = [RequestFactoryCall
                          \<lparr>options = opts,
                           defaultOptions = extend_true (this_options c) (headers_overlay e)\<rparr>
                          (Some f)],
               completion = Returned\<rparr>"
    unfolding s by (simp add: send_def o)
  with o have d: "\<exists>opts. build_options e (PObj []) = Inr opts \<and>
            invoke e c (PFunc f) None =
              \<lparr>this_after = c\<lparr>this_options := extend_target_after (this_options c) (headers_overlay e)\<rparr>,
               trace = [RequestFactoryCall
                          \<lparr>options = opts,
                           defaultOptions = extend_true (this_options c) (headers_overlay e)\<rparr>
                          (Some f)],
               completion = Returned\<rparr>"
    by blast
  show ?thesis by (intro conjI a b d)
qed

theorem function_alone_is_callback_witness:
  "listModels \<in> set all_methods \<and> requiredParams listModels = None \<and>
   invoke listModels \<lparr>this_options = stored_defaults\<rparr> (PFunc (Fn ''done'')) None =
   invoke listModels \<lparr>this_options = stored_defaults\<rparr> (PObj []) (Some (Fn ''done'')) \<and>
   build_options listModels (PObj []) = Inr (options listModels_request) \<and>
   invoke listModels \<lparr>this_options = stored_defaults\<rparr> (PFunc (Fn ''done'')) None =
     \<lparr>this_after = \<lparr>this_options = defaultOptions listModels_request\<rparr>,
      trace = [RequestFactoryCall listModels_request (Some (Fn ''done''))],
      completion = Returned\<rparr>"
proof -
  have m: "listModels \<in> set all_methods" by (rule listModels_method)
  have r: "requiredParams listModels = None" by (simp add: listModels_def)
  have o: "build_options listModels (PObj []) = Inr (options listModels_request)"
    by (simp add: build_options_def listModels_def)
  note at_input = function_alone_is_callback[OF m r, of "\<lparr>this_options = stored_defaults\<rparr>" "Fn ''done''"]
  have eq: "invoke listModels \<lparr>this_options = stored_defaults\<rparr> (PFunc (Fn ''done'')) None =
              invoke listModels \<lparr>this_options = stored_defaults\<rparr> (PObj []) (Some (Fn ''done''))"
    by (rule conjunct1[OF conjunct2[OF at_input]])
  obtain opts where o': "build_options listModels (PObj []) = Inr opts"
    and inv: "invoke listModels \<lparr>this_options = stored_defaults\<rparr> (PFunc (Fn ''done'')) None =
              \<lparr>this_after = \<lparr>this_options = stored_defaults\<rparr>
                 \<lparr>this_options := extend_target_after (this_options \<lparr>this_options = stored_defaults\<rparr>)
                                     (headers_overlay listModels)\<rparr>,
               trace = [RequestFactoryCall
                          \<lparr>options = opts,
                           defaultOptions = extend_true (this_options \<lparr>this_options = stored_defaults\<rparr>)
                                              (headers_overlay listModels)\<rparr>
                          (Some (Fn ''done''))],
               completion = Returned\<rparr>"
    using conjunct2[OF conjunct2[OF at_input]] by blast
  from o o' have same: "opts = options listModels_request" by simp
  have out: "invoke listModels \<lparr>this_options = stored_defaults\<rparr> (PFunc (Fn ''done'')) None =
     \<lparr>this_after = \<lparr>this_options = defaultOptions listModels_request\<rparr>,
      trace = [RequestFactoryCall listModels_request (Some (Fn ''done''))],
      completion = Returned\<rparr>"
    unfolding inv same by (simp add: headers_overlay_def listModels_def)
  from m r eq o out show ?thesis by (intro conjI)
qed

text \<open>
  C9. Given that BaseService stored an options object with a \<open>qs\<close> object, the
  DiscoveryV1 constructor throws if and only if the stored options have no
  \<open>version_date\<close>, and what it throws is the argument error; when it returns, the
  client's \<open>qs.version\<close> is \<open>options.version_date\<close>, and so is that of the default
  options of every request of every later sequence of calls.
\<close>

theorem DiscoveryV1_constructor_version_date:
  assumes "map_of ps ''qs'' = Some (Obj kq q)"
  shows "((\<exists>err. DiscoveryV1_constructor (Obj k ps) (Obj ko os) = Inl err) \<longleftrightarrow>
            get_prop (Obj k ps) ''version_date'' = Inr Undefined) \<and>
         (\<forall>err. DiscoveryV1_constructor (Obj k ps) (Obj ko os) = Inl err \<longrightarrow> err = version_date_error) \<and>
         (\<forall>c. DiscoveryV1_constructor (Obj k ps) (Obj ko os) = Inr c \<longrightarrow>
            qs_version (this_options c) = get_prop (Obj ko os) ''version_date'' \<and>
            (\<forall>calls p g. RequestFactoryCall p g \<in> set (snd (invoke_all c calls)) \<longrightarrow>
               qs_version (defaultOptions p) = get_prop (Obj ko os) ''version_date''))"
proof -
  note cc = constructor_cases[OF assms, of k ko os]
  have a: "(\<exists>err. DiscoveryV1_constructor (Obj k ps) (Obj ko os) = Inl err) \<longleftrightarrow>
            get_prop (Obj k ps) ''version_date'' = Inr Undefined"
    unfolding cc by simp
  have b: "\<forall>err. DiscoveryV1_constructor (Obj k ps) (Obj ko os) = Inl err \<longrightarrow> err = version_date_error"
    unfolding cc by simp
  have c: "\<forall>c. DiscoveryV1_constructor (Obj k ps) (Obj ko os) = Inr c \<longrightarrow>
            qs_version (this_options c) = get_prop (Obj ko os) ''version_date'' \<and>
            (\<forall>calls p g. RequestFactoryCall p g \<in> set (snd (invoke_all c calls)) \<longrightarrow>
               qs_version (defaultOptions p) = get_prop (Obj ko os) ''version_date'')"
  proof (intro allI impI)
    fix c assume ok: "DiscoveryV1_constructor (Obj k ps) (Obj ko os) = Inr c"
    then obtain ps' where c: "this_options c = Obj k ps'"
      and v: "qs_version (Obj k ps') = get_prop (Obj ko os) ''version_date''"
      unfolding cc by (auto simp: qs_version_def AList.update_conv' split: if_splits)
    have "\<forall>calls p g. RequestFactoryCall p g \<in> set (snd (invoke_all c calls)) \<longrightarrow>
               qs_version (defaultOptions p) = get_prop (Obj ko os) ''version_date''"
      using invoke_all_carries_version[OF c] v by auto
    with c v show "qs_version (this_options c) = get_prop (Obj ko os) ''version_date'' \<and>
            (\<forall>calls p g. RequestFactoryCall p g \<in> set (snd (invoke_all c calls)) \<longrightarrow>
               qs_version (defaultOptions p) = get_prop (Obj ko os) ''version_date'')"
      by simp
  qed
  show ?thesis by (intro conjI a b c)
qed


theorem DiscoveryV1_constructor_version_date_witness:
  "map_of [(''url'', Str ''https://gateway.watsonplatform.net/discovery/api''), (''qs'', Obj Plain [])] ''qs''
     = Some (Obj Plain []) \<and>
   DiscoveryV1_constructor
     (Obj Plain [(''url'', Str ''https://gateway.watsonplatform.net/discovery/api''), (''qs'', Obj Plain [])])
     (Obj Plain []) = Inl version_date_error \<and>
   map_of [(''version_date'', Str ''2017-09-01''),
           (''url'', Str ''https://gateway.watsonplatform.net/discovery/api''),
           (''qs'', Obj Plain [])] ''qs'' = Some (Obj Plain []) \<and>
   DiscoveryV1_constructor base_service_options (Obj Plain [(''version_date'', Str ''2017-09-01'')])
     = Inr \<lparr>this_options = discovery_defaults\<rparr> \<and>
   qs_version discovery_defaults = Inr (Str ''2017-09-01'') \<and>
   RequestFactoryCall deleteDocument_request (Some (Fn ''done''))
     \<in> set (snd (invoke_all \<lparr>this_options = discovery_defaults\<rparr>
                   [(deleteDocument,
                     PObj [(''environment_id'', Str ''env''), (''collection_id'', Str ''col''),
                           (''document_id'', Str ''doc'')],
                     Some (Fn ''done''))])) \<and>
   qs_version (defaultOptions deleteDocument_request) = Inr (Str ''2017-09-01'')"
proof -
  have q1: "map_of [(''url'', Str ''https://gateway.watsonplatform.net/discovery/api''), (''qs'', Obj Plain [])] ''qs''
     = Some (Obj Plain [])" by simp
  have q2: "map_of [(''version_date'', Str ''2017-09-01''),
           (''url'', Str ''https://gateway.watsonplatform.net/discovery/api''),
           (''qs'', Obj Plain [])] ''qs'' = Some (Obj Plain [])" by simp
  have thrown: "DiscoveryV1_constructor
     (Obj Plain [(''url'', Str ''https://gateway.watsonplatform.net/discovery/api''), (''qs'', Obj Plain [])])
     (Obj Plain []) = Inl version_date_error"
    using DiscoveryV1_constructor_version_date[OF q1, of Plain Plain "[]"] by auto
  have built: "DiscoveryV1_constructor base_service_options (Obj Plain [(''version_date'', Str ''2017-09-01'')])
     = Inr \<lparr>this_options = discovery_defaults\<rparr>"
    by (simp add: DiscoveryV1_constructor_def)
  have call: "RequestFactoryCall deleteDocument_request (Some (Fn ''done''))
     \<in> set (snd (invoke_all \<lparr>this_options = discovery_defaults\<rparr>
                   [(deleteDocument,
                     PObj [(''environment_id'', Str ''env''), (''collection_id'', Str ''col''),
                           (''document_id'', Str ''doc'')],
                     Some (Fn ''done''))]))"
    by (simp add: invoke_deleteDocument)
  note at_input = DiscoveryV1_constructor_version_date[OF q2, of Plain Plain
      "[(''version_date'', Str ''2017-09-01'')]"]
  from at_input
  have succ: "\<forall>c. DiscoveryV1_constructor base_service_options (Obj Plain [(''version_date'', Str ''2017-09-01'')]) = Inr c \<longrightarrow>
            qs_version (this_options c) = get_prop (Obj Plain [(''version_date'', Str ''2017-09-01'')]) ''version_date'' \<and>
            (\<forall>calls p g. RequestFactoryCall p g \<in> set (snd (invoke_all c calls)) \<longrightarrow>
               qs_version (defaultOptions p) = get_prop (Obj Plain [(''version_date'', Str ''2017-09-01'')]) ''version_date'')"
    by (elim conjE)
  from spec[OF succ, of "\<lparr>this_options = discovery_defaults\<rparr>"] built
  have both: "qs_version (this_options \<lparr>this_options = discovery_defaults\<rparr>) =
          get_prop (Obj Plain [(''version_date'', Str ''2017-09-01'')]) ''version_date'' \<and>
        (\<forall>calls p g. RequestFactoryCall p g \<in> set (snd (invoke_all \<lparr>this_options = discovery_defaults\<rparr> calls)) \<longrightarrow>
               qs_version (defaultOptions p) = get_prop (Obj Plain [(''version_date'', Str ''2017-09-01'')]) ''version_date'')"
    by (rule mp)
  have g: "get_prop (Obj Plain [(''version_date'', Str ''2017-09-01'')]) ''version_date'' = Inr (Str ''2017-09-01'')"
    by simp
  from both g have s1: "qs_version discovery_defaults = Inr (Str ''2017-09-01'')" by simp
  from both have "RequestFactoryCall deleteDocument_request (Some (Fn ''done''))
        \<in> set (snd (invoke_all \<lparr>this_options = discovery_defaults\<rparr>
                   [(deleteDocument,
                     PObj [(''environment_id'', Str ''env''), (''collection_id'', Str ''col''),
                           (''document_id'', Str ''doc'')],
                     Some (Fn ''done''))])) \<longrightarrow>
      qs_version (defaultOptions deleteDocument_request) =
        get_prop (Obj Plain [(''version_date'', Str ''2017-09-01'')]) ''version_date''"
    by (elim conjE allE)
  with call g have s2: "qs_version (defaultOptions deleteDocument_request) = Inr (Str ''2017-09-01'')"
    by (simp only: simp_thms)
  from q1 q2 thrown built s1 call s2 show ?thesis by (intro conjI)
qed

text \<open>
  C10. For every method with required parameters, a call with \<open>params\<close> \<open>undefined\<close> or
  \<open>null\<close> and no callback throws a TypeError: no callback is invoked, \<open>requestFactory\<close>
  is not called, and the client is untouched.
\<close>

theorem null_params_without_callback_throw:
  assumes "e \<in> set all_methods"
    and "requiredParams e = Some required"
    and "params = PUndefined \<or> params = PNull"
  shows "invoke e c params None = \<lparr>this_after = c, trace = [], completion = Threw TypeError\<rparr>"
  using assms(3) null_params_all(2,3)[OF assms(1,2)] assms(2)
  by (auto simp: invoke_def send_def split: option.splits)

theorem null_params_without_callback_throw_witness:
  "translate \<in> set all_methods \<and>
   requiredParams translate = Some [''text''] \<and>
   (PUndefined = PUndefined \<or> PUndefined = PNull) \<and>
   invoke translate \<lparr>this_options = stored_defaults\<rparr> PUndefined None =
     \<lparr>this_after = \<lparr>this_options = stored_defaults\<rparr>, trace = [], completion = Threw TypeError\<rparr>"
proof -
  have m: "translate \<in> set all_methods" by (rule translate_method)
  have r: "requiredParams translate = Some [''text'']" by (simp add: translate_def)
  have n: "PUndefined = PUndefined \<or> PUndefined = PNull" by simp
  from m r null_params_without_callback_throw[OF m r n] show ?thesis by simp
qed

end
